theory Spec2Isabelle
  imports Complex_Main "HOL-Library.Log_Nat"
begin

section \<open>Store routes (Paystack integration): a shallow embedding of Routes/Store.py\<close>

text \<open>
  The module is a set of Flask route handlers. Each handler is modelled as a function
  from its inputs (route argument, query arguments, session, configuration and the
  answer of the payment gateway) to an outcome: the list of effects it performed, in
  order, the session it leaves behind, and either a redirect or the exception that
  escaped the handler.

  The collaborators \<^verbatim>\<open>flash\<close>, \<^verbatim>\<open>webhook_log\<close>, \<^verbatim>\<open>add_credits\<close>, \<^verbatim>\<open>url_for\<close> and
  \<^verbatim>\<open>redirect\<close> are recorded as effects and taken to return normally; \<^verbatim>\<open>flash\<close> also
  stores its message in the session, as Flask does. The decorator \<^verbatim>\<open>login_required\<close> runs
  before the handler body and is not part of it.
\<close>

subsection \<open>Python values\<close>

text \<open>
  A Python \<^verbatim>\<open>float\<close> is an IEEE 754 binary64 number: a finite value (kept as the
  rational it denotes; the sign of zero is dropped, nothing here reads it), an infinity
  or a NaN.
\<close>

datatype pyfloat = Finite rat | PosInf | NegInf | NaN

text \<open>
  What \<^verbatim>\<open>response.json()\<close> returns: \<^verbatim>\<open>None\<close>, \<^verbatim>\<open>bool\<close>, \<^verbatim>\<open>int\<close>, \<^verbatim>\<open>float\<close>, \<^verbatim>\<open>str\<close>,
  \<^verbatim>\<open>list\<close> and \<^verbatim>\<open>dict\<close> with string keys. A dict is an association list read with
  \<open>map_of\<close>; the decoder leaves one entry per key.
\<close>

datatype json =
    JNull
  | JBool bool
  | JInt int
  | JFloat pyfloat
  | JStr string
  | JList "json list"
  | JObj "(string \<times> json) list"

text \<open>The exception classes that the handlers can meet.\<close>

datatype exn =
    RequestException
  | JSONDecodeError
  | KeyError
  | TypeError
  | AttributeError
  | ValueError
  | OverflowError

text \<open>Truth value of an object, as \<^verbatim>\<open>if x\<close> and \<^verbatim>\<open>x and y\<close> test it.\<close>

fun truthy :: "json \<Rightarrow> bool" where
  "truthy JNull = False"
| "truthy (JBool b) = b"
| "truthy (JInt n) = (n \<noteq> 0)"
| "truthy (JFloat f) = (f \<noteq> Finite 0)"
| "truthy (JStr s) = (s \<noteq> [])"
| "truthy (JList xs) = (xs \<noteq> [])"
| "truthy (JObj kvs) = (kvs \<noteq> [])"

text \<open>\<^verbatim>\<open>x.get(k, d)\<close>: only a dict has the method.\<close>

fun dict_get :: "json \<Rightarrow> string \<Rightarrow> json \<Rightarrow> exn + json" where
  "dict_get (JObj kvs) k d = Inr (case map_of kvs k of None \<Rightarrow> d | Some v \<Rightarrow> v)"
| "dict_get _ k d = Inl AttributeError"

text \<open>\<^verbatim>\<open>x[k]\<close> with a string key: a missing key of a dict is a \<^verbatim>\<open>KeyError\<close>, every other
  object refuses the subscript with a \<^verbatim>\<open>TypeError\<close>.\<close>

fun subscript :: "json \<Rightarrow> string \<Rightarrow> exn + json" where
  "subscript (JObj kvs) k = (case map_of kvs k of None \<Rightarrow> Inl KeyError | Some v \<Rightarrow> Inr v)"
| "subscript _ k = Inl TypeError"

text \<open>\<^verbatim>\<open>for field in x\<close>: a list gives its elements, a dict its keys, a string its
  characters; nothing else is iterable.\<close>

fun py_iter :: "json \<Rightarrow> exn + json list" where
  "py_iter (JList xs) = Inr xs"
| "py_iter (JObj kvs) = Inr (map (\<lambda>kv. JStr (fst kv)) kvs)"
| "py_iter (JStr s) = Inr (map (\<lambda>c. JStr [c]) s)"
| "py_iter _ = Inl TypeError"

subsection \<open>binary64 arithmetic\<close>

text \<open>Position of the leading bit of a positive rational: the \<open>e\<close> with
  \<open>2 ^ e \<le> q < 2 ^ (e + 1)\<close>.\<close>

definition floor_log2 :: "rat \<Rightarrow> int" where
  "floor_log2 q =
     (let (p, d) = quotient_of q;
          e = int (floorlog 2 (nat p)) - int (floorlog 2 (nat d))
      in if 2 powi e \<le> q then e else e - 1)"

definition round_half_even :: "rat \<Rightarrow> int" where
  "round_half_even q =
     (let f = \<lfloor>q\<rfloor>; r = q - of_int f
      in if r < 1/2 then f else if 1/2 < r then f + 1 else if even f then f else f + 1)"

text \<open>
  Rounding of an exact result to binary64, to nearest with ties to even: 53 significant
  bits, the exponent of the leading bit not below -1022 (subnormal numbers share the
  quantum \<open>2 ^ -1074\<close>), and an infinity once the rounded magnitude reaches \<open>2 ^ 1024\<close>.
\<close>

definition overflow_threshold :: rat where
  "overflow_threshold = 2 powi 1024"

definition fl_round :: "rat \<Rightarrow> pyfloat" where
  "fl_round q =
     (if q = 0 then Finite 0
      else
        let a = \<bar>q\<bar>;
            e = max (floor_log2 a) (- 1022);
            quantum = 2 powi (e - 52);
            r = of_int (round_half_even (a / quantum)) * quantum
        in if overflow_threshold \<le> r then (if 0 < q then PosInf else NegInf)
           else Finite (if 0 < q then r else - r))"

text \<open>\<^verbatim>\<open>x * 100\<close> for a float \<open>x\<close>: the integer becomes \<open>100.0\<close> and the product is
  rounded; an overflow gives an infinity, no exception.\<close>

fun float_mul_100 :: "pyfloat \<Rightarrow> pyfloat" where
  "float_mul_100 (Finite q) = fl_round (q * 100)"
| "float_mul_100 f = f"

text \<open>\<^verbatim>\<open>x / 100\<close> for a float \<open>x\<close>.\<close>

fun float_div_100 :: "pyfloat \<Rightarrow> pyfloat" where
  "float_div_100 (Finite q) = fl_round (q / 100)"
| "float_div_100 f = f"

text \<open>\<^verbatim>\<open>n / 100\<close> for an int \<open>n\<close>: true division, the correctly rounded quotient, or
  \<^verbatim>\<open>OverflowError\<close> when it is too large for a float.\<close>

definition int_truediv_100 :: "int \<Rightarrow> exn + pyfloat" where
  "int_truediv_100 n =
     (case fl_round (of_int n / 100) of
        Finite q \<Rightarrow> Inr (Finite q)
      | _ \<Rightarrow> Inl OverflowError)"

text \<open>\<^verbatim>\<open>int(x)\<close> for a float: truncation toward zero; NaN and the infinities raise.\<close>

fun int_of_float :: "pyfloat \<Rightarrow> exn + int" where
  "int_of_float (Finite q) = Inr (if 0 \<le> q then \<lfloor>q\<rfloor> else \<lceil>q\<rceil>)"
| "int_of_float NaN = Inl ValueError"
| "int_of_float _ = Inl OverflowError"

subsection \<open>Exceptions as values\<close>

text \<open>A computation that may raise returns \<open>Inl\<close> of the exception; \<open>bindE\<close> runs the next
  step unless the first one raised.\<close>

definition bindE :: "exn + 'a \<Rightarrow> ('a \<Rightarrow> exn + 'b) \<Rightarrow> exn + 'b" where
  "bindE m f = (case m of Inl e \<Rightarrow> Inl e | Inr v \<Rightarrow> f v)"

subsection \<open>What the handlers take from their surroundings\<close>

text \<open>
  Values that the handlers read from the application, the library and the interpreter:
  the configured secret key, the external URL of the success route, the hexadecimal
  text of the UUID drawn for the reference, \<^verbatim>\<open>str.upper\<close>, and \<^verbatim>\<open>int(s)\<close> on a string
  (\<open>None\<close> for \<^verbatim>\<open>ValueError\<close>). Whether the error that \<^verbatim>\<open>response.json()\<close> raises on a body
  that is not JSON is a \<^verbatim>\<open>RequestException\<close> depends on the version of the HTTP library.
\<close>

record runtime =
  secret_key :: "string option"
  callback_url :: string
  uuid_hex :: string
  str_upper :: "string \<Rightarrow> string"
  str_to_int :: "string \<Rightarrow> int option"
  json_error_is_request_exception :: bool

text \<open>The answer to an outbound call followed by \<^verbatim>\<open>response.json()\<close>: the call fails at the
  transport level, the body is not JSON, or the body decodes to a value.\<close>

datatype gateway = TransportError | NotJson | Json json

fun fetch_json :: "gateway \<Rightarrow> exn + json" where
  "fetch_json TransportError = Inl RequestException"
| "fetch_json NotJson = Inl JSONDecodeError"
| "fetch_json (Json j) = Inr j"

text \<open>\<^verbatim>\<open>except requests.exceptions.RequestException\<close>\<close>

definition is_request_exception :: "runtime \<Rightarrow> exn \<Rightarrow> bool" where
  "is_request_exception rt e =
     (e = RequestException \<or> (e = JSONDecodeError \<and> json_error_is_request_exception rt))"

text \<open>The exceptions raised by the handler's own reading of an answer; none of them is a
  \<^verbatim>\<open>RequestException\<close>.\<close>

definition processing_error :: "exn \<Rightarrow> bool" where
  "processing_error e = (e \<noteq> RequestException \<and> e \<noteq> JSONDecodeError)"

subsection \<open>Effects and outcomes\<close>

text \<open>
  The messages handed to \<^verbatim>\<open>flash\<close>, one constructor per message of the source, in the
  order of the source; the interpolated values are kept as arguments:
  \<^item> \<open>InvalidProduct\<close>: "Invalid product selected."
  \<^item> \<open>EmailNotFound\<close>: "User session error: Email not found."
  \<^item> \<open>NotConfigured\<close>: "Payment gateway not configured correctly."
  \<^item> \<open>InitiationFailed m\<close>: "Payment initiation failed: m"
  \<^item> \<open>CouldNotConnect\<close>: "Could not connect to payment gateway."
  \<^item> \<open>NoReference\<close>: "Payment verification failed: No transaction reference found."
  \<^item> \<open>Credited\<close>: "Success! Your account has been credited."
  \<^item> \<open>PaymentFailed m ref\<close>: "Payment failed: m. Please try again or contact support
    with reference: ref"
  \<^item> \<open>VerifyConnectionError\<close>: "Failed to verify payment with Paystack due to a
    connection error."
  \<^item> \<open>InternalError\<close>: "An internal error occurred during payment verification."
  \<^item> \<open>Cancelled\<close>: "Payment cancelled. No charge was made."
  \<^item> \<open>OtherMessage text\<close>: a message flashed by another part of the application, which
    can be pending in the session when a handler starts.
\<close>

datatype flash_msg =
    InvalidProduct
  | EmailNotFound
  | NotConfigured
  | InitiationFailed json
  | CouldNotConnect
  | NoReference
  | Credited
  | PaymentFailed json string
  | VerifyConnectionError
  | InternalError
  | Cancelled
  | OtherMessage string

text \<open>
  The messages handed to \<^verbatim>\<open>webhook_log\<close>: the secret key is not configured, the
  initialize call failed, a payment was credited (user, credits, reference), the verify
  call failed, the processing of the verify answer failed.
\<close>

datatype log_msg =
    LogKeyNotConfigured
  | LogInitializationError exn
  | LogPayment json int string
  | LogVerificationApiError exn
  | LogProcessingError exn

text \<open>A redirect goes to a named endpoint (\<^verbatim>\<open>url_for\<close>) or to the location the gateway
  gave.\<close>

datatype target = Endpoint string | Location json

datatype effect =
    Flash flash_msg
  | WebhookLog log_msg
  | HttpPost string "(string \<times> string) list" json
  | HttpGet string "(string \<times> string) list"
  | AddCredits json int
  | SessionSet string string
  | SessionPop string

text \<open>
  The session: the entries that are read and written by key (\<^verbatim>\<open>email\<close>,
  \<^verbatim>\<open>paystack_reference\<close> and whatever else the application keeps), and the list that Flask
  keeps under the key \<^verbatim>\<open>_flashes\<close> (empty when the key is absent). \<^verbatim>\<open>flash(message)\<close> reads
  that list, appends the message and writes the list back to the session.
\<close>

record session =
  entries :: "string \<rightharpoonup> string"
  flashes :: "flash_msg list"

definition flash :: "flash_msg \<Rightarrow> session \<Rightarrow> session" where
  "flash m s = s\<lparr>flashes := flashes s @ [m]\<rparr>"

text \<open>\<^verbatim>\<open>session[k] = v\<close> and \<^verbatim>\<open>session.pop(k, None)\<close>\<close>

definition session_set :: "string \<Rightarrow> string \<Rightarrow> session \<Rightarrow> session" where
  "session_set k v s = s\<lparr>entries := (entries s)(k \<mapsto> v)\<rparr>"

definition session_pop :: "string \<Rightarrow> session \<Rightarrow> session" where
  "session_pop k s = s\<lparr>entries := (entries s)(k := None)\<rparr>"

text \<open>The messages flashed among some effects, in order, and the session after each of
  them has been stored.\<close>

fun flashed :: "effect list \<Rightarrow> flash_msg list" where
  "flashed [] = []"
| "flashed (Flash m # es) = m # flashed es"
| "flashed (e # es) = flashed es"

definition store_flashes :: "effect list \<Rightarrow> session \<Rightarrow> session" where
  "store_flashes es s = fold flash (flashed es) s"

text \<open>A handler returns a redirect, or an exception leaves it.\<close>

datatype response = Redirect target | Raised exn

record outcome =
  effects :: "effect list"
  session_after :: session
  response :: response

subsection \<open>The catalog\<close>

text \<open>The dicts of \<^verbatim>\<open>products\<close>, with the keys \<^verbatim>\<open>id\<close>, \<^verbatim>\<open>name\<close>, \<^verbatim>\<open>price\<close> (a float) and
  \<^verbatim>\<open>credits\<close>.\<close>

record product =
  p_id :: int
  p_name :: string
  p_price :: pyfloat
  p_credits :: int

definition products :: "product list" where
  "products =
     [\<lparr>p_id = 1, p_name = ''Small Credit Pack'', p_price = Finite 5, p_credits = 500\<rparr>,
      \<lparr>p_id = 2, p_name = ''Medium Credit Pack'', p_price = Finite 10, p_credits = 1200\<rparr>,
      \<lparr>p_id = 3, p_name = ''Large Credit Pack'', p_price = Finite 20, p_credits = 2500\<rparr>]"

subsection \<open>generate_paystack_reference\<close>

text \<open>The decimal text of an integer, as an f-string prints it.\<close>

definition digit_char :: "nat \<Rightarrow> char" where
  "digit_char d = char_of (48 + d)"

function str_of_nat :: "nat \<Rightarrow> string" where
  "str_of_nat n = (if n < 10 then [digit_char n] else str_of_nat (n div 10) @ [digit_char (n mod 10)])"
  by pat_completeness auto
termination
  by (relation "measure id") auto

definition str_of_int :: "int \<Rightarrow> string" where
  "str_of_int i = (if i < 0 then CHR ''-'' # str_of_nat (nat (- i)) else str_of_nat (nat i))"

definition generate_paystack_reference :: "runtime \<Rightarrow> string \<Rightarrow> int \<Rightarrow> string" where
  "generate_paystack_reference rt user_email product_id =
     ''LUNES-'' @ str_upper rt (take 4 user_email) @ ''-'' @ str_of_int product_id @ ''-''
       @ str_upper rt (take 10 (uuid_hex rt))"

subsection \<open>checkout\<close>

definition paystack_reference :: string where
  "paystack_reference = ''paystack_reference''"

definition user_index :: target where
  "user_index = Endpoint ''user.index''"

text \<open>\<^verbatim>\<open>int(product['price'] * 100)\<close>\<close>

definition amount_in_subunit :: "product \<Rightarrow> exn + int" where
  "amount_in_subunit product = int_of_float (float_mul_100 (p_price product))"

definition initialize_url :: string where
  "initialize_url = ''https://api.paystack.co/transaction/initialize''"

definition bearer :: "string option \<Rightarrow> string" where
  "bearer key = ''Bearer '' @ (case key of None \<Rightarrow> ''None'' | Some k \<Rightarrow> k)"

definition initialize_headers :: "runtime \<Rightarrow> (string \<times> string) list" where
  "initialize_headers rt =
     [(''Authorization'', bearer (secret_key rt)), (''Content-Type'', ''application/json'')]"

definition initialize_payload :: "runtime \<Rightarrow> string \<Rightarrow> int \<Rightarrow> string \<Rightarrow> product \<Rightarrow> json" where
  "initialize_payload rt user_email amount transaction_reference product =
     JObj [(''email'', JStr user_email),
           (''amount'', JInt amount),
           (''callback_url'', JStr (callback_url rt)),
           (''reference'', JStr transaction_reference),
           (''metadata'', JObj [(''custom_fields'',
              JList [JObj [(''display_name'', JStr ''Credits''),
                           (''variable_name'', JStr ''credits_to_add''),
                           (''value'', JInt (p_credits product))]])])]"

text \<open>The body of the \<^verbatim>\<open>try\<close> of \<^verbatim>\<open>checkout\<close>, after the request has been sent: what it
  adds to the effects, the session it leaves, and how it ends.\<close>

definition checkout_try :: "session \<Rightarrow> gateway \<Rightarrow> string \<Rightarrow> outcome" where
  "checkout_try session gw transaction_reference =
     (case fetch_json gw of
        Inl e \<Rightarrow> \<lparr>effects = [], session_after = session, response = Raised e\<rparr>
      | Inr response_data \<Rightarrow>
          (case dict_get response_data ''status'' JNull of
             Inl e \<Rightarrow> \<lparr>effects = [], session_after = session, response = Raised e\<rparr>
           | Inr status \<Rightarrow>
               if truthy status then
                 \<lparr>effects = [SessionSet paystack_reference transaction_reference],
                  session_after = session_set paystack_reference transaction_reference session,
                  response =
                    (case bindE (subscript response_data ''data'')
                            (\<lambda>data. subscript data ''authorization_url'') of
                       Inl e \<Rightarrow> Raised e
                     | Inr authorization_url \<Rightarrow> Redirect (Location authorization_url))\<rparr>
               else
                 (case dict_get response_data ''message'' (JStr ''Unknown API Error'') of
                    Inl e \<Rightarrow> \<lparr>effects = [], session_after = session, response = Raised e\<rparr>
                  | Inr message \<Rightarrow>
                      \<lparr>effects = [Flash (InitiationFailed message)],
                       session_after = flash (InitiationFailed message) session,
                       response = Redirect user_index\<rparr>)))"

text \<open>The \<^verbatim>\<open>except\<close> clause of \<^verbatim>\<open>checkout\<close>: only a \<^verbatim>\<open>RequestException\<close> is handled.\<close>

definition checkout_except :: "runtime \<Rightarrow> outcome \<Rightarrow> outcome" where
  "checkout_except rt r =
     (case response r of
        Raised e \<Rightarrow>
          if is_request_exception rt e
          then r\<lparr>effects := effects r @ [WebhookLog (LogInitializationError e), Flash CouldNotConnect],
                 session_after := flash CouldNotConnect (session_after r),
                 response := Redirect user_index\<rparr>
          else r
      | Redirect t \<Rightarrow> r)"

definition checkout :: "runtime \<Rightarrow> session \<Rightarrow> gateway \<Rightarrow> int \<Rightarrow> outcome" where
  "checkout rt session gw product_id =
     (case find (\<lambda>p. p_id p = product_id) products of
        None \<Rightarrow>
          \<lparr>effects = [Flash InvalidProduct], session_after = flash InvalidProduct session,
           response = Redirect (Endpoint ''store.store_page'')\<rparr>
      | Some product \<Rightarrow>
          (case amount_in_subunit product of
             Inl e \<Rightarrow> \<lparr>effects = [], session_after = session, response = Raised e\<rparr>
           | Inr amount \<Rightarrow>
               (case entries session ''email'' of
                  None \<Rightarrow>
                    \<lparr>effects = [Flash EmailNotFound],
                     session_after = flash EmailNotFound session,
                     response = Redirect user_index\<rparr>
                | Some user_email \<Rightarrow>
                    if user_email = [] then
                      \<lparr>effects = [Flash EmailNotFound],
                       session_after = flash EmailNotFound session,
                       response = Redirect user_index\<rparr>
                    else if secret_key rt = None \<or> secret_key rt = Some [] then
                      \<lparr>effects = [WebhookLog LogKeyNotConfigured, Flash NotConfigured],
                       session_after = flash NotConfigured session,
                       response = Redirect user_index\<rparr>
                    else
                      let transaction_reference =
                            generate_paystack_reference rt user_email product_id;
                          post = HttpPost initialize_url (initialize_headers rt)
                                   (initialize_payload rt user_email amount
                                      transaction_reference product);
                          r = checkout_except rt (checkout_try session gw transaction_reference)
                      in r\<lparr>effects := post # effects r\<rparr>)))"

subsection \<open>success\<close>

text \<open>\<^verbatim>\<open>int(x)\<close> on a decoded value.\<close>

fun py_int :: "runtime \<Rightarrow> json \<Rightarrow> exn + int" where
  "py_int rt (JInt n) = Inr n"
| "py_int rt (JBool b) = Inr (if b then 1 else 0)"
| "py_int rt (JFloat f) = int_of_float f"
| "py_int rt (JStr s) = (case str_to_int rt s of None \<Rightarrow> Inl ValueError | Some n \<Rightarrow> Inr n)"
| "py_int rt _ = Inl TypeError"

text \<open>\<^verbatim>\<open>x / 100\<close> on a decoded value; the result, when there is one, is a float.\<close>

fun truediv_100 :: "json \<Rightarrow> exn + pyfloat" where
  "truediv_100 (JInt n) = int_truediv_100 n"
| "truediv_100 (JBool b) = int_truediv_100 (if b then 1 else 0)"
| "truediv_100 (JFloat f) = Inr (float_div_100 f)"
| "truediv_100 _ = Inl TypeError"

text \<open>The loop over \<^verbatim>\<open>custom_fields\<close>: \<^verbatim>\<open>credits_to_add\<close> starts at 0 and takes the value of
  the first field named \<^verbatim>\<open>credits_to_add\<close>, where the loop breaks.\<close>

fun scan_custom_fields :: "runtime \<Rightarrow> json list \<Rightarrow> exn + int" where
  "scan_custom_fields rt [] = Inr 0"
| "scan_custom_fields rt (field # rest) =
     (case dict_get field ''variable_name'' JNull of
        Inl e \<Rightarrow> Inl e
      | Inr name \<Rightarrow>
          if name = JStr ''credits_to_add''
          then bindE (subscript field ''value'') (py_int rt)
          else scan_custom_fields rt rest)"

definition credits_from_metadata :: "runtime \<Rightarrow> json \<Rightarrow> exn + int" where
  "credits_from_metadata rt verified_data =
     bindE (dict_get verified_data ''metadata'' (JObj [])) (\<lambda>metadata.
     bindE (dict_get metadata ''custom_fields'' (JList [])) (\<lambda>custom_fields.
     bindE (py_iter custom_fields) (scan_custom_fields rt)))"

text \<open>The fallback: \<^verbatim>\<open>int(verified_data['amount'] / 100 * 100)\<close>.\<close>

definition fallback_credits :: "json \<Rightarrow> exn + int" where
  "fallback_credits verified_data =
     bindE (subscript verified_data ''amount'') (\<lambda>amount.
     bindE (truediv_100 amount) (\<lambda>amount_paid_major_unit.
     int_of_float (float_mul_100 amount_paid_major_unit)))"

definition credits_to_add :: "runtime \<Rightarrow> json \<Rightarrow> exn + int" where
  "credits_to_add rt verified_data =
     bindE (credits_from_metadata rt verified_data) (\<lambda>c.
       if c = 0 then fallback_credits verified_data else Inr c)"

text \<open>The branch taken when the gateway reports a successful transaction.\<close>

definition credit_branch :: "runtime \<Rightarrow> string \<Rightarrow> json \<Rightarrow> exn + effect list" where
  "credit_branch rt reference verified_data =
     bindE (credits_to_add rt verified_data) (\<lambda>credits.
     bindE (subscript verified_data ''customer'') (\<lambda>customer.
     bindE (subscript customer ''email'') (\<lambda>user_email.
       Inr [AddCredits user_email credits,
            WebhookLog (LogPayment user_email credits reference),
            Flash Credited])))"

text \<open>The \<^verbatim>\<open>else\<close> branch: failed or abandoned payments. The receiver of \<^verbatim>\<open>.get\<close> is
  looked at before the default argument is computed.\<close>

definition failed_branch :: "string \<Rightarrow> json \<Rightarrow> exn + effect list" where
  "failed_branch reference response_data =
     bindE (subscript response_data ''data'') (\<lambda>data.
       case data of
         JObj kvs \<Rightarrow>
           bindE (subscript data ''status'') (\<lambda>status.
           bindE (dict_get data ''gateway_response'' status) (\<lambda>status_msg.
             Inr [Flash (PaymentFailed status_msg reference)]))
       | _ \<Rightarrow> Inl AttributeError)"

text \<open>The body of the \<^verbatim>\<open>try\<close> of \<^verbatim>\<open>success\<close>, after the request has been sent. Every path
  that does not raise ends in the redirect to \<^verbatim>\<open>user.index\<close>.\<close>

definition success_try :: "runtime \<Rightarrow> string \<Rightarrow> gateway \<Rightarrow> exn + effect list" where
  "success_try rt reference gw =
     bindE (fetch_json gw) (\<lambda>response_data.
     bindE (dict_get response_data ''status'' JNull) (\<lambda>flag.
       if truthy flag then
         bindE (subscript response_data ''data'') (\<lambda>data.
         bindE (subscript data ''status'') (\<lambda>status.
           if status = JStr ''success''
           then credit_branch rt reference data
           else failed_branch reference response_data))
       else failed_branch reference response_data))"

text \<open>The two \<^verbatim>\<open>except\<close> clauses of \<^verbatim>\<open>success\<close>, in their order.\<close>

definition success_except :: "runtime \<Rightarrow> exn \<Rightarrow> effect list" where
  "success_except rt e =
     (if is_request_exception rt e
      then [WebhookLog (LogVerificationApiError e), Flash VerifyConnectionError]
      else [WebhookLog (LogProcessingError e), Flash InternalError])"

definition verify_url :: "string \<Rightarrow> string" where
  "verify_url reference = ''https://api.paystack.co/transaction/verify/'' @ reference"

text \<open>\<^verbatim>\<open>request.args.get('reference') or session.get('paystack_reference')\<close>\<close>

definition find_reference :: "string option \<Rightarrow> session \<Rightarrow> string option" where
  "find_reference arg session =
     (case arg of
        None \<Rightarrow> entries session paystack_reference
      | Some r \<Rightarrow> if r \<noteq> [] then Some r else entries session paystack_reference)"

definition success :: "runtime \<Rightarrow> string option \<Rightarrow> session \<Rightarrow> gateway \<Rightarrow> outcome" where
  "success rt arg session gw =
     (case find_reference arg session of
        None \<Rightarrow>
          \<lparr>effects = [Flash NoReference], session_after = flash NoReference session,
           response = Redirect user_index\<rparr>
      | Some reference \<Rightarrow>
          if reference = [] then
            \<lparr>effects = [Flash NoReference], session_after = flash NoReference session,
             response = Redirect user_index\<rparr>
          else
            let es = (case success_try rt reference gw of
                        Inl e \<Rightarrow> success_except rt e
                      | Inr es \<Rightarrow> es)
            in \<lparr>effects =
                  [SessionPop paystack_reference,
                   HttpGet (verify_url reference) [(''Authorization'', bearer (secret_key rt))]]
                  @ es,
                session_after = store_flashes es (session_pop paystack_reference session),
                response = Redirect user_index\<rparr>)"

subsection \<open>cancel\<close>

definition cancel :: "session \<Rightarrow> outcome" where
  "cancel session =
     \<lparr>effects = [SessionPop paystack_reference, Flash Cancelled],
      session_after = flash Cancelled (session_pop paystack_reference session),
      response = Redirect user_index\<rparr>"

subsection \<open>Observations on an outcome\<close>

text \<open>The calls made to \<^verbatim>\<open>add_credits\<close>, as pairs of account and amount.\<close>

fun credited :: "effect list \<Rightarrow> (json \<times> int) list" where
  "credited [] = []"
| "credited (AddCredits account n # es) = (account, n) # credited es"
| "credited (e # es) = credited es"

fun is_http :: "effect \<Rightarrow> bool" where
  "is_http (HttpPost url headers payload) = True"
| "is_http (HttpGet url headers) = True"
| "is_http e = False"

text \<open>The writes that a handler makes to the session by key.\<close>

fun is_session_write :: "effect \<Rightarrow> bool" where
  "is_session_write (SessionSet k v) = True"
| "is_session_write (SessionPop k) = True"
| "is_session_write e = False"

fun is_redirect :: "response \<Rightarrow> bool" where
  "is_redirect (Redirect t) = True"
| "is_redirect (Raised e) = False"

subsection \<open>Reading a gateway answer\<close>

text \<open>The value found by following keys through nested dicts, when every step exists.\<close>

fun at_path :: "json \<Rightarrow> string list \<Rightarrow> json option" where
  "at_path j [] = Some j"
| "at_path (JObj kvs) (k # ks) = (case map_of kvs k of None \<Rightarrow> None | Some v \<Rightarrow> at_path v ks)"
| "at_path j (k # ks) = None"

text \<open>The overall status flag of an answer is true, as \<^verbatim>\<open>if response_data.get('status')\<close>
  tests it.\<close>

definition status_flag_true :: "gateway \<Rightarrow> bool" where
  "status_flag_true gw =
     (case gw of
        Json r \<Rightarrow> (case at_path r [''status''] of Some flag \<Rightarrow> truthy flag | None \<Rightarrow> False)
      | _ \<Rightarrow> False)"

text \<open>The gateway reports overall success and the transaction status \<^verbatim>\<open>"success"\<close>.\<close>

definition reports_success :: "gateway \<Rightarrow> bool" where
  "reports_success gw =
     (status_flag_true gw \<and>
      (case gw of
         Json r \<Rightarrow> at_path r [''data'', ''status''] = Some (JStr ''success'')
       | _ \<Rightarrow> False))"

text \<open>A custom field is named \<^verbatim>\<open>credits_to_add\<close>; a custom field is an object with another
  name, or with none.\<close>

definition names_credits :: "json \<Rightarrow> bool" where
  "names_credits field = (at_path field [''variable_name''] = Some (JStr ''credits_to_add''))"

definition other_field :: "json \<Rightarrow> bool" where
  "other_field field = (case field of JObj kvs \<Rightarrow> \<not> names_credits field | _ \<Rightarrow> False)"

text \<open>
  The loop over these fields ends with \<^verbatim>\<open>credits_to_add\<close> at 0: the fields before the first
  one named \<^verbatim>\<open>credits_to_add\<close> are objects with other names, and that field, when there is
  one, holds a value that \<^verbatim>\<open>int\<close> turns into 0.
\<close>

fun leaves_zero :: "runtime \<Rightarrow> json list \<Rightarrow> bool" where
  "leaves_zero rt [] = True"
| "leaves_zero rt (field # rest) =
     (if names_credits field
      then (case at_path field [''value''] of None \<Rightarrow> False | Some v \<Rightarrow> py_int rt v = Inr 0)
      else other_field field \<and> leaves_zero rt rest)"

text \<open>The transaction data hold no credit amount: there is no metadata, or the metadata
  have no \<^verbatim>\<open>custom_fields\<close>, or the fields that the loop runs over leave \<^verbatim>\<open>credits_to_add\<close>
  at 0.\<close>

definition no_credits_in_metadata :: "runtime \<Rightarrow> json \<Rightarrow> bool" where
  "no_credits_in_metadata rt data =
     (case data of
        JObj kvs \<Rightarrow>
          (case map_of kvs ''metadata'' of
             None \<Rightarrow> True
           | Some metadata \<Rightarrow>
               (case metadata of
                  JObj m \<Rightarrow>
                    (case map_of m ''custom_fields'' of
                       None \<Rightarrow> True
                     | Some custom_fields \<Rightarrow>
                         (case py_iter custom_fields of
                            Inl e \<Rightarrow> False
                          | Inr fs \<Rightarrow> leaves_zero rt fs))
                | _ \<Rightarrow> False))
      | _ \<Rightarrow> False)"

text \<open>A field at which the loop cannot go on: it is not an object, or it is named
  \<^verbatim>\<open>credits_to_add\<close> and has no \<^verbatim>\<open>value\<close>, or a value that \<^verbatim>\<open>int\<close> rejects.\<close>

definition unreadable_field :: "runtime \<Rightarrow> json \<Rightarrow> bool" where
  "unreadable_field rt field =
     (case field of
        JObj kvs \<Rightarrow>
          names_credits field \<and>
          (case map_of kvs ''value'' of
             None \<Rightarrow> True
           | Some v \<Rightarrow> (case py_int rt v of Inl e \<Rightarrow> True | Inr n \<Rightarrow> False))
      | _ \<Rightarrow> True)"

text \<open>The transaction data have no \<^verbatim>\<open>amount\<close>, or one that cannot be divided by 100, or one
  whose rescaled value \<^verbatim>\<open>int\<close> rejects (a NaN or an infinity).\<close>

definition unreadable_amount :: "json \<Rightarrow> bool" where
  "unreadable_amount data =
     (case at_path data [''amount''] of
        None \<Rightarrow> True
      | Some amount \<Rightarrow>
          (case truediv_100 amount of
             Inl e \<Rightarrow> True
           | Inr major \<Rightarrow>
               (case int_of_float (float_mul_100 major) of Inl e \<Rightarrow> True | Inr n \<Rightarrow> False)))"

text \<open>The metadata are present and not an object, or their \<^verbatim>\<open>custom_fields\<close> are present and
  cannot be iterated.\<close>

definition unreadable_metadata :: "json \<Rightarrow> bool" where
  "unreadable_metadata data =
     (case at_path data [''metadata''] of
        None \<Rightarrow> False
      | Some metadata \<Rightarrow>
          (case metadata of
             JObj m \<Rightarrow>
               (case map_of m ''custom_fields'' of
                  None \<Rightarrow> False
                | Some custom_fields \<Rightarrow>
                    (case py_iter custom_fields of Inl e \<Rightarrow> True | Inr fs \<Rightarrow> False))
           | _ \<Rightarrow> True))"

text \<open>The fallback as the specification words it, in exact arithmetic:
  \<open>floor (paid_subunit / 100 \<times> 100)\<close>.\<close>

definition fallback_formula :: "int \<Rightarrow> int" where
  "fallback_formula paid_subunit = \<lfloor>(of_int paid_subunit :: rat) / 100 * 100\<rfloor>"

subsection \<open>Sample inputs\<close>

definition ascii_upper :: "string \<Rightarrow> string" where
  "ascii_upper s =
     map (\<lambda>c. let n = (of_char c :: nat) in if 97 \<le> n \<and> n \<le> 122 then char_of (n - 32) else c) s"

fun parse_digits :: "nat \<Rightarrow> string \<Rightarrow> nat option" where
  "parse_digits acc [] = Some acc"
| "parse_digits acc (c # cs) =
     (let n = (of_char c :: nat)
      in if 48 \<le> n \<and> n \<le> 57 then parse_digits (10 * acc + (n - 48)) cs else None)"

text \<open>\<^verbatim>\<open>int(s)\<close> restricted to plain ASCII decimal text: an optional minus sign and digits.\<close>

definition ascii_decimal :: "string \<Rightarrow> int option" where
  "ascii_decimal s =
     (case s of
        [] \<Rightarrow> None
      | c # cs \<Rightarrow>
          if c = CHR ''-''
          then (if cs = [] then None else map_option (\<lambda>n. - int n) (parse_digits 0 cs))
          else map_option int (parse_digits 0 s))"

definition sample_runtime :: runtime where
  "sample_runtime =
     \<lparr>secret_key = Some ''sk_test_key'',
      callback_url = ''https://panel.example/success'',
      uuid_hex = ''0123456789abcdef0123456789abcdef'',
      str_upper = ascii_upper,
      str_to_int = ascii_decimal,
      json_error_is_request_exception = True\<rparr>"

definition sample_session :: session where
  "sample_session =
     \<lparr>entries = [''email'' \<mapsto> ''visitor@example.com'',
                 paystack_reference \<mapsto> ''LUNES-VISI-1-0123456789''],
      flashes = []\<rparr>"

text \<open>A session that holds the email only: no purchase is pending.\<close>

definition new_visitor_session :: session where
  "new_visitor_session = \<lparr>entries = [''email'' \<mapsto> ''visitor@example.com''], flashes = []\<rparr>"

definition sample_customer :: json where
  "sample_customer = JObj [(''email'', JStr ''buyer@example.com'')]"

definition credit_field :: "json \<Rightarrow> json" where
  "credit_field v =
     JObj [(''display_name'', JStr ''Credits''), (''variable_name'', JStr ''credits_to_add''),
           (''value'', v)]"

text \<open>A verify answer with the given overall flag and transaction data.\<close>

definition verify_answer :: "bool \<Rightarrow> (string \<times> json) list \<Rightarrow> json" where
  "verify_answer flag data = JObj [(''status'', JBool flag), (''data'', JObj data)]"

definition paid_with_metadata :: json where
  "paid_with_metadata =
     verify_answer True
       [(''status'', JStr ''success''), (''amount'', JInt 500),
        (''metadata'', JObj [(''custom_fields'', JList [credit_field (JInt 500)])]),
        (''customer'', sample_customer)]"

definition abandoned_payment :: json where
  "abandoned_payment =
     verify_answer True
       [(''status'', JStr ''abandoned''), (''gateway_response'', JStr ''Abandoned by user''),
        (''amount'', JInt 500),
        (''metadata'', JObj [(''custom_fields'', JList [credit_field (JInt 500)])]),
        (''customer'', sample_customer)]"

definition paid_with_two_fields :: json where
  "paid_with_two_fields =
     verify_answer True
       [(''status'', JStr ''success''), (''amount'', JInt 500),
        (''metadata'', JObj [(''custom_fields'',
           JList [JObj [(''display_name'', JStr ''Plan''), (''variable_name'', JStr ''plan''),
                        (''value'', JStr ''small'')],
                  credit_field (JInt 1200)])]),
        (''customer'', sample_customer)]"

definition plan_field :: json where
  "plan_field =
     JObj [(''display_name'', JStr ''Plan''), (''variable_name'', JStr ''plan''),
           (''value'', JStr ''small'')]"

definition paid_with_text_credits :: json where
  "paid_with_text_credits =
     verify_answer True
       [(''status'', JStr ''success''), (''amount'', JInt 500),
        (''metadata'', JObj [(''custom_fields'',
           JList [plan_field, credit_field (JStr ''many'')])]),
        (''customer'', sample_customer)]"

definition zero_then_nonzero :: json where
  "zero_then_nonzero =
     verify_answer True
       [(''status'', JStr ''success''), (''amount'', JInt 500),
        (''metadata'', JObj [(''custom_fields'',
           JList [credit_field (JInt 0), credit_field (JInt 1200)])]),
        (''customer'', sample_customer)]"

definition paid_without_metadata :: "int \<Rightarrow> json" where
  "paid_without_metadata amount =
     verify_answer True
       [(''status'', JStr ''success''), (''amount'', JInt amount), (''customer'', sample_customer)]"

definition paid_without_amount :: json where
  "paid_without_amount =
     verify_answer True [(''status'', JStr ''success''), (''customer'', sample_customer)]"

definition paid_with_valueless_field :: json where
  "paid_with_valueless_field =
     verify_answer True
       [(''status'', JStr ''success''), (''amount'', JInt 500),
        (''metadata'', JObj [(''custom_fields'',
           JList [JObj [(''display_name'', JStr ''Credits''),
                        (''variable_name'', JStr ''credits_to_add'')]])]),
        (''customer'', sample_customer)]"

definition paid_with_null_metadata :: json where
  "paid_with_null_metadata =
     verify_answer True
       [(''status'', JStr ''success''), (''amount'', JInt 500), (''metadata'', JNull),
        (''customer'', sample_customer)]"

definition paid_without_customer :: json where
  "paid_without_customer =
     verify_answer True
       [(''status'', JStr ''success''), (''amount'', JInt 500),
        (''metadata'', JObj [(''custom_fields'', JList [credit_field (JInt 500)])])]"

text \<open>An answer with a true status flag and nothing else.\<close>

definition true_flag_without_data :: json where
  "true_flag_without_data = JObj [(''status'', JBool True)]"

definition initialize_refused :: json where
  "initialize_refused =
     JObj [(''status'', JBool False), (''message'', JStr ''Invalid key'')]"

section \<open>Properties\<close>

subsection \<open>binary64 rounding\<close>

lemma bitlen_bounds:
  assumes "0 < (p::int)"
  shows "2 ^ (floorlog 2 (nat p) - 1) \<le> p \<and> p < 2 ^ floorlog 2 (nat p)"
proof -
  have "0 < nat p" using assms by simp
  from floorlog_bounds[OF this, of 2]
  have "2 ^ (floorlog 2 (nat p) - 1) \<le> nat p \<and> nat p < 2 ^ floorlog 2 (nat p)" by simp
  then have "int (2 ^ (floorlog 2 (nat p) - 1)) \<le> int (nat p) \<and> int (nat p) < int (2 ^ floorlog 2 (nat p))"
    by (metis of_nat_le_iff of_nat_less_iff)
  then show ?thesis using assms by simp
qed

lemma powi_mono_rat: "e \<le> e' \<Longrightarrow> (2::rat) powi e \<le> 2 powi e'"
  by (rule power_int_increasing) simp_all

lemma floor_log2_unique:
  assumes "(2::rat) powi e \<le> q" "q < 2 powi (e + 1)" "2 powi e' \<le> q" "q < 2 powi (e' + 1)"
  shows "e = e'"
proof (rule ccontr)
  assume "e \<noteq> e'"
  then consider "e + 1 \<le> e'" | "e' + 1 \<le> e" by linarith
  then show False
  proof cases
    case 1
    from powi_mono_rat[OF this] assms show False by linarith
  next
    case 2
    from powi_mono_rat[OF this] assms show False by linarith
  qed
qed

lemma floor_log2_bounds:
  assumes "0 < q"
  shows "2 powi (floor_log2 q) \<le> q \<and> q < 2 powi (floor_log2 q + 1)"
proof -
  obtain p d where pd: "quotient_of q = (p, d)" by (cases "quotient_of q")
  have d: "0 < d" using pd quotient_of_denom_pos by blast
  have q: "q = of_int p / of_int d" using pd quotient_of_div by blast
  have p: "0 < p" using assms d q by (simp add: zero_less_divide_iff)
  define Lp where "Lp = floorlog 2 (nat p)"
  define Ld where "Ld = floorlog 2 (nat d)"
  define e0 where "e0 = int Lp - int Ld"
  have Lp0: "0 < Lp" unfolding Lp_def using p floorlog_eq_zero_iff[of 2 "nat p"] by simp
  have Ld0: "0 < Ld" unfolding Ld_def using d floorlog_eq_zero_iff[of 2 "nat d"] by simp
  have bp: "2 ^ (Lp - 1) \<le> p" "p < 2 ^ Lp" using bitlen_bounds[OF p] by (simp_all add: Lp_def)
  have bd: "2 ^ (Ld - 1) \<le> d" "d < 2 ^ Ld" using bitlen_bounds[OF d] by (simp_all add: Ld_def)
  have rp: "(2::rat) ^ (Lp - 1) \<le> of_int p" "(of_int p :: rat) < 2 ^ Lp"
    using bp by (metis of_int_le_iff of_int_numeral of_int_power, metis of_int_less_iff of_int_numeral of_int_power)
  have rd: "(2::rat) ^ (Ld - 1) \<le> of_int d" "(of_int d :: rat) < 2 ^ Ld"
    using bd by (metis of_int_le_iff of_int_numeral of_int_power, metis of_int_less_iff of_int_numeral of_int_power)
  have dpos: "(0::rat) < of_int d" using d by simp
  have e0p: "(2::rat) powi (e0 + 1) = 2 ^ Lp / 2 ^ (Ld - 1)"
  proof -
    have "e0 + 1 = int Lp - int (Ld - 1)" using Ld0 by (simp add: e0_def)
    then show ?thesis by (simp add: power_int_diff)
  qed
  have e0m: "(2::rat) powi (e0 - 1) = 2 ^ (Lp - 1) / 2 ^ Ld"
  proof -
    have "e0 - 1 = int (Lp - 1) - int Ld" using Lp0 by (simp add: e0_def)
    then show ?thesis by (simp add: power_int_diff)
  qed
  have up: "q < 2 powi (e0 + 1)"
  proof -
    have "q < 2 ^ Lp / of_int d" unfolding q using rp(2) dpos by (simp add: divide_strict_right_mono)
    also have "\<dots> \<le> 2 ^ Lp / 2 ^ (Ld - 1)" using rd(1) by (simp add: frac_le)
    finally show ?thesis by (simp add: e0p)
  qed
  have lo: "2 powi (e0 - 1) \<le> q"
  proof -
    have "(2::rat) ^ (Lp - 1) / 2 ^ Ld \<le> 2 ^ (Lp - 1) / of_int d"
      using rd(2) dpos by (simp add: frac_le)
    also have "\<dots> \<le> q" unfolding q using rp(1) dpos by (simp add: divide_right_mono)
    finally show ?thesis by (simp add: e0m)
  qed
  have fl: "floor_log2 q = (if 2 powi e0 \<le> q then e0 else e0 - 1)"
    by (simp add: floor_log2_def pd e0_def Lp_def Ld_def Let_def)
  show ?thesis
  proof (cases "2 powi e0 \<le> q")
    case True
    then show ?thesis using up fl by simp
  next
    case False
    then show ?thesis using lo fl by simp
  qed
qed

lemma floor_log2_eqI:
  assumes "(2::rat) powi e \<le> q" "q < 2 powi (e + 1)"
  shows "floor_log2 q = e"
proof -
  have "0 < (2::rat) powi e" by simp
  then have "0 < q" using assms(1) by linarith
  from floor_log2_bounds[OF this] assms show ?thesis
    using floor_log2_unique by blast
qed


lemma round_half_even_eqI:
  assumes "\<bar>q - of_int m\<bar> < 1 / 2"
  shows "round_half_even q = m"
proof -
  have lo: "of_int m - 1 / 2 < q" and hi: "q < of_int m + 1 / 2" using assms by linarith+
  consider (ge) "of_int m \<le> q" | (lt) "q < of_int m" by linarith
  then show ?thesis
  proof cases
    case ge
    have "\<lfloor>q\<rfloor> = m" using ge hi by (intro floor_unique) linarith+
    then show ?thesis using hi by (simp add: round_half_even_def Let_def)
  next
    case lt
    have 1: "of_int (m - 1) \<le> q" using lo by simp
    have 2: "q < of_int (m - 1) + 1" using lt by simp
    have f: "\<lfloor>q\<rfloor> = m - 1" using 1 2 by (rule floor_unique)
    have "1 / 2 < q - of_int (m - 1)" using lo by simp
    then show ?thesis using f by (simp add: round_half_even_def Let_def)
  qed
qed

lemma fl_round_pos:
  assumes "(2::rat) powi e \<le> q" "q < 2 powi (e + 1)" "- 1022 \<le> e" "e \<le> 1022"
    and "\<bar>q / 2 powi (e - 52) - of_int m\<bar> < 1 / 2"
  shows "fl_round q = Finite (of_int m * 2 powi (e - 52))"
proof -
  have "0 < (2::rat) powi e" by simp
  then have q: "0 < q" using assms(1) by linarith
  have a: "\<bar>q\<bar> = q" using q by simp
  have e: "floor_log2 q = e" using assms(1,2) by (rule floor_log2_eqI)
  have m: "max e (- 1022) = e" using assms(3) by simp
  have r: "round_half_even (q / 2 powi (e - 52)) = m" using assms(5) by (rule round_half_even_eqI)
  have quantum: "(0::rat) < 2 powi (e - 52)" by simp
  have split: "(2::rat) powi (e + 1) = 2 ^ 53 * 2 powi (e - 52)"
  proof -
    have "e + 1 = 53 + (e - 52)" by linarith
    then have "(2::rat) powi (e + 1) = 2 powi (53 + (e - 52))" by (rule arg_cong)
    also have "\<dots> = 2 powi 53 * 2 powi (e - 52)" by (rule power_int_add) simp
    finally show ?thesis by simp
  qed
  have "q / 2 powi (e - 52) < 2 ^ 53"
    using assms(2) quantum by (simp add: split pos_divide_less_eq)
  then have "(of_int m :: rat) < 2 ^ 53 + 1 / 2" using assms(5) by linarith
  then have "(of_int m :: rat) < of_int (2 ^ 53 + 1)" by simp
  then have "m < 2 ^ 53 + 1" by (simp only: of_int_less_iff)
  then have "(of_int m :: rat) \<le> 2 ^ 53" by simp
  then have "of_int m * 2 powi (e - 52) \<le> (2::rat) ^ 53 * 2 powi (e - 52)"
    using quantum by (simp add: mult_right_mono)
  also have "\<dots> = 2 powi (e + 1)" by (simp only: split)
  also have "\<dots> \<le> 2 powi 1023" using assms(4) by (intro power_int_increasing) simp_all
  also have "\<dots> < 2 powi 1024" by (intro power_int_strict_increasing) simp_all
  finally have ok: "\<not> overflow_threshold \<le> of_int m * 2 powi (e - 52)"
    by (simp add: overflow_threshold_def)
  show ?thesis
    unfolding fl_round_def Let_def a e m r using q ok by simp
qed


lemma fl_round_29_100: "fl_round (29 / 100) = Finite (5224175567749775 / 18014398509481984)"
proof -
  have "fl_round (29 / 100) = Finite (of_int 5224175567749775 * 2 powi (- 2 - 52))"
    by (rule fl_round_pos) (simp_all add: power_int_minus)
  then show ?thesis by (simp add: power_int_minus)
qed

lemma float_mul_100_of_29_100:
  "float_mul_100 (Finite (5224175567749775 / 18014398509481984))
     = Finite (8162774324609023 / 281474976710656)"
proof -
  have "fl_round (5224175567749775 / 18014398509481984 * 100)
          = Finite (of_int 8162774324609023 * 2 powi (4 - 52))"
    by (rule fl_round_pos) (simp_all add: power_int_minus)
  then show ?thesis by (simp add: power_int_minus)
qed

lemma fl_round_6407_100: "fl_round (6407 / 100) = Finite (1127131359865733 / 17592186044416)"
proof -
  have "fl_round (6407 / 100) = Finite (of_int 4508525439462932 * 2 powi (6 - 52))"
    by (rule fl_round_pos) (simp_all add: power_int_minus)
  then show ?thesis by (simp add: power_int_minus)
qed

lemma float_mul_100_of_6407_100:
  "float_mul_100 (Finite (1127131359865733 / 17592186044416))
     = Finite (7044570999160831 / 1099511627776)"
proof -
  have "fl_round (1127131359865733 / 17592186044416 * 100)
          = Finite (of_int 7044570999160831 * 2 powi (12 - 52))"
    by (rule fl_round_pos) (simp_all add: power_int_minus)
  then show ?thesis by (simp add: power_int_minus)
qed

lemma fl_round_5: "fl_round 5 = Finite 5"
proof -
  have "fl_round 5 = Finite (of_int 5629499534213120 * 2 powi (2 - 52))"
    by (rule fl_round_pos) (simp_all add: power_int_minus)
  then show ?thesis by (simp add: power_int_minus)
qed

lemma fl_round_500: "fl_round 500 = Finite 500"
proof -
  have "fl_round 500 = Finite (of_int 8796093022208000 * 2 powi (8 - 52))"
    by (rule fl_round_pos) (simp_all add: power_int_minus)
  then show ?thesis by (simp add: power_int_minus)
qed

lemma fl_round_1000: "fl_round 1000 = Finite 1000"
proof -
  have "fl_round 1000 = Finite (of_int 8796093022208000 * 2 powi (9 - 52))"
    by (rule fl_round_pos) (simp_all add: power_int_minus)
  then show ?thesis by (simp add: power_int_minus)
qed

lemma fl_round_2000: "fl_round 2000 = Finite 2000"
proof -
  have "fl_round 2000 = Finite (of_int 8796093022208000 * 2 powi (10 - 52))"
    by (rule fl_round_pos) (simp_all add: power_int_minus)
  then show ?thesis by (simp add: power_int_minus)
qed

subsection \<open>Exceptions raised while reading an answer\<close>

lemma bindE_Inl [simp]: "bindE (Inl e) f = Inl e"
  by (simp add: bindE_def)

lemma bindE_Inr [simp]: "bindE (Inr v) f = f v"
  by (simp add: bindE_def)

lemma bindE_eq_Inr: "bindE m f = Inr y \<longleftrightarrow> (\<exists>v. m = Inr v \<and> f v = Inr y)"
  by (cases m) simp_all

lemma bindE_eq_Inl: "bindE m f = Inl e \<longleftrightarrow> m = Inl e \<or> (\<exists>v. m = Inr v \<and> f v = Inl e)"
  by (cases m) simp_all

lemma credited_append [simp]: "credited (xs @ ys) = credited xs @ credited ys"
  by (induction xs rule: credited.induct) simp_all

lemma credited_success_except [simp]: "credited (success_except rt e) = []"
  by (simp add: success_except_def)

lemma failed_branch_no_credit:
  assumes "failed_branch reference r = Inr es"
  shows "credited es = []"
proof -
  from assms obtain data where
    "(case data of
        JObj kvs \<Rightarrow>
          bindE (subscript data ''status'') (\<lambda>status.
          bindE (dict_get data ''gateway_response'' status) (\<lambda>status_msg.
            Inr [Flash (PaymentFailed status_msg reference)]))
      | _ \<Rightarrow> Inl AttributeError) = Inr es"
    by (auto simp: failed_branch_def bindE_eq_Inr)
  then show ?thesis
    by (cases data) (auto simp: bindE_eq_Inr)
qed

lemma subscript_at_path: "subscript j k = Inr v \<longleftrightarrow> at_path j [k] = Some v"
  by (cases j) (auto split: option.splits)

lemma dict_get_JObj: "dict_get j k d = Inr v \<Longrightarrow> \<exists>kvs. j = JObj kvs"
  by (cases j) simp_all

lemma success_try_credit_only_on_success:
  assumes "\<not> reports_success gw" "success_try rt reference gw = Inr es"
  shows "credited es = []"
proof (cases gw)
  case (Json r)
  from assms(2) Json obtain flag where
    flag: "dict_get r ''status'' JNull = Inr flag" and
    rest: "(if truthy flag then
              bindE (subscript r ''data'') (\<lambda>data.
              bindE (subscript data ''status'') (\<lambda>status.
                if status = JStr ''success''
                then credit_branch rt reference data
                else failed_branch reference r))
            else failed_branch reference r) = Inr es"
    by (auto simp: success_try_def bindE_eq_Inr)
  from flag obtain kvs where r: "r = JObj kvs" by (blast dest: dict_get_JObj)
  show ?thesis
  proof (cases "truthy flag")
    case False
    with rest show ?thesis by (simp add: failed_branch_no_credit)
  next
    case True
    with rest obtain data status where
      data: "subscript r ''data'' = Inr data" and
      status: "subscript data ''status'' = Inr status" and
      branch: "(if status = JStr ''success'' then credit_branch rt reference data
                else failed_branch reference r) = Inr es"
      by (auto simp: bindE_eq_Inr)
    have "status \<noteq> JStr ''success''"
    proof
      assume "status = JStr ''success''"
      with data status flag True r have "reports_success gw"
        unfolding reports_success_def status_flag_true_def Json
        by (cases data) (auto split: option.splits)
      with assms(1) show False by simp
    qed
    with branch show ?thesis by (simp add: failed_branch_no_credit)
  qed
qed (use assms(2) in \<open>simp_all add: success_try_def\<close>)

subsection \<open>No credit without a successful transaction\<close>

text \<open>
  C1. Whenever the answer to the verify call does not report overall success together
  with the transaction status \<^verbatim>\<open>"success"\<close> (the flag is false, the data is missing, the
  status is another one, or there is no JSON answer at all), \<^verbatim>\<open>success\<close> makes no call to
  \<^verbatim>\<open>add_credits\<close>.
\<close>

theorem no_credit_unless_success:
  assumes "\<not> reports_success gw"
  shows "credited (effects (success rt arg session gw)) = []"
proof (cases "find_reference arg session")
  case None
  then show ?thesis by (simp add: success_def Let_def)
next
  case (Some reference)
  show ?thesis
  proof (cases "success_try rt reference gw")
    case (Inl e)
    with Some show ?thesis by (simp add: success_def Let_def)
  next
    case (Inr es)
    with assms have "credited es = []" by (rule success_try_credit_only_on_success)
    with Some Inr show ?thesis by (simp add: success_def Let_def)
  qed
qed

theorem no_credit_unless_success_witness:
  "\<not> reports_success (Json abandoned_payment) \<and>
   credited (effects (success sample_runtime None sample_session (Json abandoned_payment))) = []"
proof -
  have h: "\<not> reports_success (Json abandoned_payment)"
    by (simp add: reports_success_def status_flag_true_def abandoned_payment_def verify_answer_def)
  show ?thesis
    using h no_credit_unless_success [OF h, of sample_runtime None sample_session] by simp
qed

subsection \<open>Unknown products\<close>

lemma find_unknown_product:
  "product_id \<notin> p_id ` set products \<Longrightarrow> find (\<lambda>p. p_id p = product_id) products = None"
  by (auto simp: find_None_iff)

text \<open>
  C8, as the code has it. For a product id that is not in the catalog, \<^verbatim>\<open>checkout\<close> does
  exactly one thing before it returns: it flashes the invalid-product message. It sends
  no request to the gateway and redirects to the store page. The only change to the
  session is the one that \<^verbatim>\<open>flash\<close> makes, the message appended to the flashed messages;
  every entry read or written by key, the pending reference among them, is as before.
\<close>

theorem unknown_product_rejected:
  assumes "product_id \<notin> p_id ` set products"
  shows "effects (checkout rt session gw product_id) = [Flash InvalidProduct] \<and>
         (\<forall>e \<in> set (effects (checkout rt session gw product_id)).
            \<not> is_http e \<and> \<not> is_session_write e) \<and>
         entries (session_after (checkout rt session gw product_id)) = entries session \<and>
         flashes (session_after (checkout rt session gw product_id))
           = flashes session @ [InvalidProduct] \<and>
         response (checkout rt session gw product_id) = Redirect (Endpoint ''store.store_page'')"
  using find_unknown_product [OF assms] by (simp add: checkout_def flash_def)

theorem unknown_product_rejected_witness:
  "(7::int) \<notin> p_id ` set products \<and>
   effects (checkout sample_runtime sample_session (Json true_flag_without_data) 7)
     = [Flash InvalidProduct] \<and>
   entries (session_after (checkout sample_runtime sample_session (Json true_flag_without_data) 7))
     = entries sample_session \<and>
   flashes (session_after (checkout sample_runtime sample_session (Json true_flag_without_data) 7))
     = [InvalidProduct] \<and>
   response (checkout sample_runtime sample_session (Json true_flag_without_data) 7)
     = Redirect (Endpoint ''store.store_page'')"
proof -
  have h: "(7::int) \<notin> p_id ` set products" by (simp add: products_def)
  show ?thesis
    using h unknown_product_rejected
              [OF h, of sample_runtime sample_session "Json true_flag_without_data"]
    by (simp add: sample_session_def)
qed

text \<open>
  C8 fails as stated: \<^verbatim>\<open>flash\<close> stores its message in the session, so the session that
  \<^verbatim>\<open>checkout\<close> leaves for an unknown product is not the one it found.
\<close>

theorem unknown_product_flash_is_stored:
  "(7::int) \<notin> p_id ` set products \<and>
   session_after (checkout sample_runtime sample_session (Json true_flag_without_data) 7)
     \<noteq> sample_session \<and>
   flashes sample_session = [] \<and>
   flashes (session_after (checkout sample_runtime sample_session (Json true_flag_without_data) 7))
     = [InvalidProduct]"
proof -
  have f: "flashes (session_after (checkout sample_runtime sample_session
                                     (Json true_flag_without_data) 7)) = [InvalidProduct]"
    by (simp add: checkout_def products_def flash_def sample_session_def)
  have e: "flashes sample_session = []" by (simp add: sample_session_def)
  from f e have "session_after (checkout sample_runtime sample_session
                                  (Json true_flag_without_data) 7) \<noteq> sample_session"
    by auto
  with f e show ?thesis by (simp add: products_def)
qed

subsection \<open>The session during checkout\<close>

lemma checkout_try_without_flag:
  assumes "\<not> status_flag_true gw"
  shows "entries (session_after (checkout_try session gw reference)) = entries session \<and>
         (\<forall>e \<in> set (effects (checkout_try session gw reference)). \<not> is_session_write e)"
proof (cases gw)
  case (Json r)
  show ?thesis
  proof (cases r)
    case (JObj kvs)
    with assms Json show ?thesis
      by (auto simp: checkout_try_def status_flag_true_def flash_def split: option.splits)
  qed (simp_all add: checkout_try_def Json)
qed (simp_all add: checkout_try_def)

lemma checkout_except_session [simp]:
  "entries (session_after (checkout_except rt r)) = entries (session_after r)"
  by (simp add: checkout_except_def flash_def split: response.splits)

lemma checkout_except_writes:
  "(\<forall>e \<in> set (effects r). \<not> is_session_write e)
     \<Longrightarrow> (\<forall>e \<in> set (effects (checkout_except rt r)). \<not> is_session_write e)"
  by (auto simp: checkout_except_def split: response.splits)

text \<open>
  C9. \<^verbatim>\<open>checkout\<close> writes the session only when the initialize answer carries a true
  status flag. For an unknown product, a missing (or empty) session email, a missing (or
  empty) secret key, and for every gateway answer without a true flag (a reported
  failure, a transport error, a body that is not JSON), every entry of the session that is
  read or written by key, the pending reference among them, is left as it was, and no
  session write is among the effects. (The messages that \<^verbatim>\<open>flash\<close> stores are kept apart
  from these entries.)
\<close>

theorem session_written_only_on_true_flag:
  assumes "product_id \<notin> p_id ` set products \<or>
           entries session ''email'' = None \<or> entries session ''email'' = Some [] \<or>
           secret_key rt = None \<or> secret_key rt = Some [] \<or>
           \<not> status_flag_true gw"
  shows "entries (session_after (checkout rt session gw product_id)) = entries session \<and>
         (\<forall>e \<in> set (effects (checkout rt session gw product_id)). \<not> is_session_write e)"
proof (cases "status_flag_true gw")
  case False
  show ?thesis
    using checkout_try_without_flag [OF False]
          checkout_except_writes [of "checkout_try session gw reference" rt for reference]
    by (auto simp: checkout_def Let_def flash_def split: option.splits sum.splits)
next
  case True
  with assms consider "product_id \<notin> p_id ` set products"
    | "entries session ''email'' = None \<or> entries session ''email'' = Some []"
    | "secret_key rt = None \<or> secret_key rt = Some []" by blast
  then show ?thesis
  proof cases
    case 1
    then show ?thesis using find_unknown_product [OF 1] by (simp add: checkout_def flash_def)
  next
    case 2
    then show ?thesis by (auto simp: checkout_def flash_def split: option.splits sum.splits)
  next
    case 3
    then show ?thesis by (auto simp: checkout_def flash_def split: option.splits sum.splits)
  qed
qed

theorem session_written_only_on_true_flag_witness:
  "status_flag_true (Json initialize_refused) = False \<and>
   entries (session_after (checkout sample_runtime sample_session (Json initialize_refused) 1))
     = entries sample_session \<and>
   filter is_session_write
     (effects (checkout sample_runtime sample_session (Json initialize_refused) 1)) = []"
proof -
  have h: "\<not> status_flag_true (Json initialize_refused)"
    by (simp add: status_flag_true_def initialize_refused_def)
  show ?thesis
    using h session_written_only_on_true_flag
            [of 1 sample_session sample_runtime "Json initialize_refused"]
    by (simp add: filter_empty_conv)
qed

subsection \<open>The pending reference during verification\<close>

lemma fold_flash_entries [simp]: "entries (fold flash ms s) = entries s"
  by (induction ms arbitrary: s) (simp_all add: flash_def)

lemma store_flashes_entries: "entries (store_flashes es s) = entries s"
  by (simp add: store_flashes_def)

text \<open>
  C6. When \<^verbatim>\<open>success\<close> finds a reference (in the query argument or in the session), the
  pending reference is popped from the session before the verify request is sent, and
  whatever the gateway answers the handler returns a redirect with no pending reference
  left in the session.
\<close>

theorem pending_reference_cleared:
  assumes "find_reference arg session = Some reference" "reference \<noteq> []"
  shows "entries (session_after (success rt arg session gw)) paystack_reference = None \<and>
         (\<exists>rest. effects (success rt arg session gw)
            = SessionPop paystack_reference
              # HttpGet (verify_url reference) [(''Authorization'', bearer (secret_key rt))]
              # rest) \<and>
         is_redirect (response (success rt arg session gw))"
  using assms by (simp add: success_def Let_def store_flashes_entries session_pop_def)

theorem pending_reference_cleared_witness:
  "find_reference None sample_session = Some ''LUNES-VISI-1-0123456789'' \<and>
   entries (session_after (success sample_runtime None sample_session TransportError))
     paystack_reference = None \<and>
   is_redirect (response (success sample_runtime None sample_session TransportError))"
proof -
  have h: "find_reference None sample_session = Some ''LUNES-VISI-1-0123456789''"
    by (simp add: find_reference_def sample_session_def)
  show ?thesis
    using h pending_reference_cleared [OF h, of sample_runtime TransportError] by simp
qed

subsection \<open>Whose account is credited\<close>

lemma find_reference_ignores_email:
  assumes "\<forall>k. k \<noteq> ''email'' \<longrightarrow> entries s1 k = entries s2 k"
  shows "find_reference arg s1 = find_reference arg s2"
proof -
  have "paystack_reference \<noteq> ''email''" by (simp add: paystack_reference_def)
  with assms have "entries s1 paystack_reference = entries s2 paystack_reference" by blast
  then show ?thesis unfolding find_reference_def by (rule arg_cong)
qed

lemma at_path_step: "subscript j k = Inr v \<Longrightarrow> at_path j (k # ks) = at_path v ks"
  by (cases j) (auto split: option.splits)

lemma credit_branch_account:
  assumes "credit_branch rt reference data = Inr es" "(account, n) \<in> set (credited es)"
  shows "at_path data [''customer'', ''email''] = Some account"
proof -
  from assms(1) obtain credits customer user_email where
    c: "subscript data ''customer'' = Inr customer" and
    e: "subscript customer ''email'' = Inr user_email" and
    es: "es = [AddCredits user_email credits,
               WebhookLog (LogPayment user_email credits reference), Flash Credited]"
    by (auto simp: credit_branch_def bindE_eq_Inr)
  from es assms(2) have "account = user_email" by simp
  with c e show ?thesis by (simp add: at_path_step subscript_at_path [symmetric])
qed

lemma success_try_account:
  assumes "success_try rt reference gw = Inr es" "(account, n) \<in> set (credited es)"
  shows "\<exists>r. gw = Json r \<and> at_path r [''data'', ''customer'', ''email''] = Some account"
proof (cases gw)
  case (Json r)
  from assms(1) Json obtain flag where
    rest: "(if truthy flag then
              bindE (subscript r ''data'') (\<lambda>data.
              bindE (subscript data ''status'') (\<lambda>status.
                if status = JStr ''success''
                then credit_branch rt reference data
                else failed_branch reference r))
            else failed_branch reference r) = Inr es"
    by (auto simp: success_try_def bindE_eq_Inr)
  have not_failed: "failed_branch reference r \<noteq> Inr es"
    using failed_branch_no_credit [of reference r es] assms(2) by auto
  with rest have t: "truthy flag" by (auto split: if_splits)
  with rest obtain data status where
    data: "subscript r ''data'' = Inr data" and
    branch: "(if status = JStr ''success'' then credit_branch rt reference data
              else failed_branch reference r) = Inr es"
    by (auto simp: bindE_eq_Inr)
  from branch not_failed have "credit_branch rt reference data = Inr es"
    by (auto split: if_splits)
  then have "at_path data [''customer'', ''email''] = Some account"
    using assms(2) by (rule credit_branch_account)
  with data Json show ?thesis by (simp add: at_path_step)
qed (use assms(1) in \<open>simp_all add: success_try_def\<close>)

text \<open>
  C5. The session email plays no part in \<^verbatim>\<open>success\<close>: two invocations whose sessions
  differ at most in the email, with the same query argument and the same answer of the
  gateway, perform the same effects (so they credit the same account with the same
  amount) and return the same response. Every account that \<^verbatim>\<open>success\<close> credits is the
  value at \<^verbatim>\<open>data.customer.email\<close> of the verify answer.
\<close>

theorem credit_goes_to_verified_email:
  assumes "\<forall>k. k \<noteq> ''email'' \<longrightarrow> entries s1 k = entries s2 k"
  shows "effects (success rt arg s1 gw) = effects (success rt arg s2 gw) \<and>
         response (success rt arg s1 gw) = response (success rt arg s2 gw) \<and>
         (\<forall>account n. (account, n) \<in> set (credited (effects (success rt arg s1 gw))) \<longrightarrow>
            (\<exists>r. gw = Json r \<and> at_path r [''data'', ''customer'', ''email''] = Some account))"
proof -
  have same: "find_reference arg s1 = find_reference arg s2"
    using assms by (rule find_reference_ignores_email)
  have eff: "effects (success rt arg s1 gw) = effects (success rt arg s2 gw)"
    using same by (simp add: success_def Let_def split: option.splits)
  have resp: "response (success rt arg s1 gw) = response (success rt arg s2 gw)"
    using same by (simp add: success_def Let_def split: option.splits)
  have acct: "\<exists>r. gw = Json r \<and> at_path r [''data'', ''customer'', ''email''] = Some account"
    if "(account, n) \<in> set (credited (effects (success rt arg s1 gw)))" for account n
  proof (cases "find_reference arg s1")
    case None
    with that show ?thesis by (simp add: success_def Let_def)
  next
    case (Some reference)
    show ?thesis
    proof (cases "success_try rt reference gw")
      case (Inl e)
      with Some that show ?thesis by (simp add: success_def Let_def split: if_splits)
    next
      case (Inr es)
      with Some that have "(account, n) \<in> set (credited es)"
        by (simp add: success_def Let_def split: if_splits)
      with Inr show ?thesis by (rule success_try_account)
    qed
  qed
  from eff resp acct show ?thesis by blast
qed

lemmas verification_defs =
  success_def Let_def find_reference_def success_try_def credit_branch_def failed_branch_def
  credits_to_add_def credits_from_metadata_def fallback_credits_def success_except_def
  is_request_exception_def verify_answer_def credit_field_def sample_customer_def
  sample_session_def paystack_reference_def

lemma paid_with_metadata_credits:
  "credited (effects (success rt None sample_session (Json paid_with_metadata)))
     = [(JStr ''buyer@example.com'', 500)]"
  by (simp add: verification_defs paid_with_metadata_def)

theorem credit_goes_to_verified_email_witness:
  "effects (success sample_runtime None sample_session (Json paid_with_metadata))
     = effects (success sample_runtime None
                  (session_set ''email'' ''someone.else@example.com'' sample_session)
                  (Json paid_with_metadata)) \<and>
   (JStr ''buyer@example.com'', 500)
     \<in> set (credited (effects (success sample_runtime None sample_session (Json paid_with_metadata)))) \<and>
   at_path paid_with_metadata [''data'', ''customer'', ''email'']
     = Some (JStr ''buyer@example.com'')"
proof -
  have h: "\<forall>k. k \<noteq> ''email'' \<longrightarrow>
             entries sample_session k
               = entries (session_set ''email'' ''someone.else@example.com'' sample_session) k"
    by (simp add: session_set_def)
  have c: "(JStr ''buyer@example.com'', 500)
             \<in> set (credited (effects (success sample_runtime None sample_session
                                         (Json paid_with_metadata))))"
    by (simp add: paid_with_metadata_credits)
  show ?thesis
    using c credit_goes_to_verified_email [OF h, of sample_runtime None "Json paid_with_metadata"]
    by blast
qed

subsection \<open>The amount sent to the gateway\<close>

lemma amount_in_subunit_catalog:
  "amount_in_subunit \<lparr>p_id = 1, p_name = ''Small Credit Pack'', p_price = Finite 5, p_credits = 500\<rparr>
     = Inr 500"
  "amount_in_subunit \<lparr>p_id = 2, p_name = ''Medium Credit Pack'', p_price = Finite 10, p_credits = 1200\<rparr>
     = Inr 1000"
  "amount_in_subunit \<lparr>p_id = 3, p_name = ''Large Credit Pack'', p_price = Finite 20, p_credits = 2500\<rparr>
     = Inr 2000"
  by (simp_all add: amount_in_subunit_def fl_round_500 fl_round_1000 fl_round_2000)

lemma checkout_try_no_post:
  "HttpPost url headers payload \<notin> set (effects (checkout_except rt (checkout_try session gw reference)))"
  by (auto simp: checkout_except_def checkout_try_def
           split: response.splits sum.splits if_splits)

lemma checkout_post_payload:
  assumes "HttpPost url headers payload \<in> set (effects (checkout rt session gw product_id))"
    and "find (\<lambda>p. p_id p = product_id) products = Some product"
    and "amount_in_subunit product = Inr amount"
  shows "at_path payload [''amount''] = Some (JInt amount)"
proof -
  from assms obtain user_email where
    "payload = initialize_payload rt user_email amount
                 (generate_paystack_reference rt user_email product_id) product"
    using checkout_try_no_post [of url headers payload rt session gw]
    by (auto simp: checkout_def Let_def split: option.splits if_splits)
  then show ?thesis by (simp add: initialize_payload_def)
qed

text \<open>
  C4. For every product id of the catalog, the amount that \<^verbatim>\<open>checkout\<close> computes, and
  sends as \<^verbatim>\<open>amount\<close> in the payload of the initialize request whenever it sends one, is
  the price times 100 rounded to an integer. On the catalog the product is an integer,
  so rounding and the truncation of the source agree.
\<close>

theorem checkout_amount_is_rounded_price:
  assumes "find (\<lambda>p. p_id p = product_id) products = Some product"
  shows "\<exists>price. p_price product = Finite price \<and>
           amount_in_subunit product = Inr (round (price * 100)) \<and>
           round (price * 100) = \<lfloor>price * 100\<rfloor> \<and>
           (\<forall>url headers payload.
              HttpPost url headers payload \<in> set (effects (checkout rt session gw product_id))
              \<longrightarrow> at_path payload [''amount''] = Some (JInt (round (price * 100))))"
proof -
  from assms have "product \<in> set products"
    by (auto simp: find_Some_iff in_set_conv_nth)
  then consider
      "product = \<lparr>p_id = 1, p_name = ''Small Credit Pack'', p_price = Finite 5, p_credits = 500\<rparr>"
    | "product = \<lparr>p_id = 2, p_name = ''Medium Credit Pack'', p_price = Finite 10, p_credits = 1200\<rparr>"
    | "product = \<lparr>p_id = 3, p_name = ''Large Credit Pack'', p_price = Finite 20, p_credits = 2500\<rparr>"
    by (auto simp: products_def)
  then show ?thesis
  proof cases
    case 1
    have a: "amount_in_subunit product = Inr 500" using 1 amount_in_subunit_catalog(1) by simp
    have "p_price product = Finite 5 \<and> amount_in_subunit product = Inr (round (5 * 100 :: rat)) \<and>
          round (5 * 100 :: rat) = \<lfloor>5 * 100 :: rat\<rfloor> \<and>
          (\<forall>url headers payload.
              HttpPost url headers payload \<in> set (effects (checkout rt session gw product_id))
              \<longrightarrow> at_path payload [''amount''] = Some (JInt (round (5 * 100 :: rat))))"
      using 1 a checkout_post_payload [OF _ assms a] by simp
    then show ?thesis by blast
  next
    case 2
    have a: "amount_in_subunit product = Inr 1000" using 2 amount_in_subunit_catalog(2) by simp
    have "p_price product = Finite 10 \<and> amount_in_subunit product = Inr (round (10 * 100 :: rat)) \<and>
          round (10 * 100 :: rat) = \<lfloor>10 * 100 :: rat\<rfloor> \<and>
          (\<forall>url headers payload.
              HttpPost url headers payload \<in> set (effects (checkout rt session gw product_id))
              \<longrightarrow> at_path payload [''amount''] = Some (JInt (round (10 * 100 :: rat))))"
      using 2 a checkout_post_payload [OF _ assms a] by simp
    then show ?thesis by blast
  next
    case 3
    have a: "amount_in_subunit product = Inr 2000" using 3 amount_in_subunit_catalog(3) by simp
    have "p_price product = Finite 20 \<and> amount_in_subunit product = Inr (round (20 * 100 :: rat)) \<and>
          round (20 * 100 :: rat) = \<lfloor>20 * 100 :: rat\<rfloor> \<and>
          (\<forall>url headers payload.
              HttpPost url headers payload \<in> set (effects (checkout rt session gw product_id))
              \<longrightarrow> at_path payload [''amount''] = Some (JInt (round (20 * 100 :: rat))))"
      using 3 a checkout_post_payload [OF _ assms a] by simp
    then show ?thesis by blast
  qed
qed

lemma find_medium_pack:
  "find (\<lambda>p. p_id p = 2) products = Some (products ! 1)"
  by (simp add: products_def)

lemma checkout_medium_pack_posts:
  "HttpPost initialize_url (initialize_headers sample_runtime)
     (initialize_payload sample_runtime ''visitor@example.com'' 1000
        (generate_paystack_reference sample_runtime ''visitor@example.com'' 2) (products ! 1))
   \<in> set (effects (checkout sample_runtime sample_session (Json initialize_refused) 2))"
  by (simp add: checkout_def products_def amount_in_subunit_catalog sample_session_def
        sample_runtime_def paystack_reference_def Let_def)

theorem checkout_amount_is_rounded_price_witness:
  "find (\<lambda>p. p_id p = 2) products = Some (products ! 1) \<and>
   p_price (products ! 1) = Finite 10 \<and>
   amount_in_subunit (products ! 1) = Inr 1000 \<and>
   (\<exists>payload.
      HttpPost initialize_url (initialize_headers sample_runtime) payload
        \<in> set (effects (checkout sample_runtime sample_session (Json initialize_refused) 2)) \<and>
      at_path payload [''amount''] = Some (JInt 1000))"
proof -
  have p: "p_price (products ! 1) = Finite 10" by (simp add: products_def)
  from checkout_amount_is_rounded_price
         [OF find_medium_pack, of sample_runtime sample_session "Json initialize_refused"]
  obtain price where
    price: "p_price (products ! 1) = Finite price" and
    amount: "amount_in_subunit (products ! 1) = Inr (round (price * 100))" and
    sent: "\<forall>url headers payload.
              HttpPost url headers payload
                \<in> set (effects (checkout sample_runtime sample_session (Json initialize_refused) 2))
              \<longrightarrow> at_path payload [''amount''] = Some (JInt (round (price * 100)))"
    by blast
  from p price have "price = 10" by simp
  then have r: "round (price * 100) = 1000" by simp
  from sent checkout_medium_pack_posts r
  have "at_path (initialize_payload sample_runtime ''visitor@example.com'' 1000
                   (generate_paystack_reference sample_runtime ''visitor@example.com'' 2)
                   (products ! 1)) [''amount''] = Some (JInt 1000)"
    by metis
  with checkout_medium_pack_posts find_medium_pack p amount r show ?thesis by metis
qed

subsection \<open>How the handlers end\<close>

lemma success_returns_redirect: "response (success rt arg session gw) = Redirect user_index"
  by (simp add: success_def Let_def split: option.splits)

lemma cancel_returns_redirect: "response (cancel session) = Redirect user_index"
  by (simp add: cancel_def)

text \<open>
  C7. \<^verbatim>\<open>success\<close> and \<^verbatim>\<open>cancel\<close> always return a redirect (the two lemmas above), but
  \<^verbatim>\<open>checkout\<close> does not: its \<^verbatim>\<open>except\<close> clause handles \<^verbatim>\<open>RequestException\<close> only. When the
  initialize answer has a true status flag and no \<^verbatim>\<open>data\<close>, the reference has already been
  written to the session (which held none before) and the \<^verbatim>\<open>KeyError\<close> raised by
  \<^verbatim>\<open>response_data['data']['authorization_url']\<close> leaves the handler.
\<close>

theorem checkout_without_data_raises:
  "response (checkout sample_runtime new_visitor_session (Json true_flag_without_data) 1)
     = Raised KeyError \<and>
   \<not> is_redirect
       (response (checkout sample_runtime new_visitor_session (Json true_flag_without_data) 1)) \<and>
   entries new_visitor_session paystack_reference = None \<and>
   entries (session_after
              (checkout sample_runtime new_visitor_session (Json true_flag_without_data) 1))
     paystack_reference
     = Some (generate_paystack_reference sample_runtime ''visitor@example.com'' 1)"
  by (simp add: checkout_def products_def amount_in_subunit_catalog new_visitor_session_def
        sample_runtime_def Let_def checkout_try_def checkout_except_def session_set_def
        true_flag_without_data_def is_request_exception_def paystack_reference_def)

subsection \<open>The branch of a successful transaction\<close>

lemma at_path_Cons_Some:
  assumes "at_path j (k # ks) = Some x"
  obtains kvs v where "j = JObj kvs" "map_of kvs k = Some v" "at_path v ks = Some x"
  using assms by (cases j) (auto split: option.splits)

lemma success_try_on_success:
  assumes "reports_success (Json r)"
  obtains data where "at_path r [''data''] = Some data"
    and "success_try rt reference (Json r) = credit_branch rt reference data"
proof -
  from assms have flag: "status_flag_true (Json r)"
    and st: "at_path r [''data'', ''status''] = Some (JStr ''success'')"
    by (simp_all add: reports_success_def)
  from st obtain kvs data where r: "r = JObj kvs" and d: "map_of kvs ''data'' = Some data"
    and ds: "at_path data [''status''] = Some (JStr ''success'')"
    by (rule at_path_Cons_Some)
  from flag r obtain f where f: "map_of kvs ''status'' = Some f" "truthy f"
    by (auto simp: status_flag_true_def split: option.splits)
  from ds have "subscript data ''status'' = Inr (JStr ''success'')"
    by (simp add: subscript_at_path)
  with r d f have "success_try rt reference (Json r) = credit_branch rt reference data"
    by (simp add: success_try_def)
  moreover from r d have "at_path r [''data''] = Some data" by simp
  ultimately show ?thesis by (rule that [rotated])
qed

lemma credit_branch_credits:
  assumes "credits_to_add rt data = Inr c"
    and "at_path data [''customer'', ''email''] = Some account"
  shows "credit_branch rt reference data
           = Inr [AddCredits account c, WebhookLog (LogPayment account c reference), Flash Credited]"
proof -
  from assms(2) obtain kvs customer where "data = JObj kvs" "map_of kvs ''customer'' = Some customer"
    and e: "at_path customer [''email''] = Some account"
    by (rule at_path_Cons_Some)
  then have "subscript data ''customer'' = Inr customer" by simp
  moreover from e have "subscript customer ''email'' = Inr account"
    by (simp add: subscript_at_path)
  ultimately show ?thesis using assms(1) by (simp add: credit_branch_def)
qed

lemma success_effects_found:
  assumes "find_reference arg session = Some reference" "reference \<noteq> []"
  shows "effects (success rt arg session gw)
           = [SessionPop paystack_reference,
              HttpGet (verify_url reference) [(''Authorization'', bearer (secret_key rt))]]
             @ (case success_try rt reference gw of Inl e \<Rightarrow> success_except rt e | Inr es \<Rightarrow> es)"
  using assms by (simp add: success_def Let_def)

lemma other_field_skipped:
  assumes "other_field g"
  shows "scan_custom_fields rt (g # fs) = scan_custom_fields rt fs"
proof -
  from assms obtain kvs where g: "g = JObj kvs" and n: "\<not> names_credits g"
    by (cases g) (simp_all add: other_field_def)
  from n g have "(case map_of kvs ''variable_name'' of None \<Rightarrow> JNull | Some v \<Rightarrow> v)
                   \<noteq> JStr ''credits_to_add''"
    by (auto simp: names_credits_def split: option.splits)
  with g show ?thesis by simp
qed

lemma other_fields_skipped:
  "\<forall>g \<in> set skipped. other_field g
     \<Longrightarrow> scan_custom_fields rt (skipped @ fs) = scan_custom_fields rt fs"
proof (induction skipped)
  case Nil
  show ?case by simp
next
  case (Cons g skipped)
  then have "other_field g" by simp
  then have "scan_custom_fields rt (g # (skipped @ fs)) = scan_custom_fields rt (skipped @ fs)"
    by (rule other_field_skipped)
  with Cons show ?case by (simp del: scan_custom_fields.simps)
qed

lemma credits_field_read:
  assumes "names_credits field" "at_path field [''value''] = Some v"
  shows "scan_custom_fields rt (field # rest) = py_int rt v"
proof -
  from assms(1) obtain kvs where f: "field = JObj kvs"
    and n: "map_of kvs ''variable_name'' = Some (JStr ''credits_to_add'')"
    unfolding names_credits_def by (cases field) (auto split: option.splits)
  from assms(2) have "subscript field ''value'' = Inr v" by (simp add: subscript_at_path)
  with f n show ?thesis by simp
qed

lemma credits_from_metadata_first_field:
  assumes "at_path data [''metadata'', ''custom_fields''] = Some (JList (skipped @ field # rest))"
    and "\<forall>g \<in> set skipped. other_field g"
    and "names_credits field" "at_path field [''value''] = Some v"
  shows "credits_from_metadata rt data = py_int rt v"
proof -
  from assms(1) obtain kvs metadata where d: "data = JObj kvs"
    and m: "map_of kvs ''metadata'' = Some metadata"
    and c: "at_path metadata [''custom_fields''] = Some (JList (skipped @ field # rest))"
    by (rule at_path_Cons_Some)
  from c obtain mkvs where mo: "metadata = JObj mkvs"
    and cf: "map_of mkvs ''custom_fields'' = Some (JList (skipped @ field # rest))"
    by (cases metadata) (auto split: option.splits)
  have "credits_from_metadata rt data = scan_custom_fields rt (skipped @ field # rest)"
    using d m mo cf by (simp add: credits_from_metadata_def)
  also have "\<dots> = scan_custom_fields rt (field # rest)"
    using assms(2) by (rule other_fields_skipped)
  also have "\<dots> = py_int rt v" using assms(3,4) by (rule credits_field_read)
  finally show ?thesis .
qed

lemma at_path_data:
  "at_path r [''data''] = Some data \<Longrightarrow> at_path r (''data'' # ks) = at_path data ks"
  by (cases r) (auto split: option.splits)

text \<open>
  C2, as the code has it. When the gateway reports success, the loop over
  \<^verbatim>\<open>custom_fields\<close> stops at the first field named \<^verbatim>\<open>credits_to_add\<close>. If the fields before
  it are objects with other names, that field holds a nonzero integer, and the answer
  carries \<^verbatim>\<open>data.customer.email\<close>, then \<^verbatim>\<open>success\<close> makes exactly one call to
  \<^verbatim>\<open>add_credits\<close>: for that email, with that integer. The paid amount is not read.
\<close>

theorem first_credit_field_is_credited:
  assumes "find_reference arg session = Some reference" "reference \<noteq> []"
    and "reports_success (Json r)"
    and "at_path r [''data'', ''metadata'', ''custom_fields'']
           = Some (JList (skipped @ field # rest))"
    and "\<forall>g \<in> set skipped. other_field g"
    and "names_credits field" "at_path field [''value''] = Some (JInt v)" "v \<noteq> 0"
    and "at_path r [''data'', ''customer'', ''email''] = Some account"
  shows "credited (effects (success rt arg session (Json r))) = [(account, v)]"
proof -
  from assms(3) obtain data where data: "at_path r [''data''] = Some data"
    and body: "success_try rt reference (Json r) = credit_branch rt reference data"
    by (rule success_try_on_success)
  have "credits_from_metadata rt data = py_int rt (JInt v)"
    using assms(4,5,6,7) by (intro credits_from_metadata_first_field) (simp_all add: at_path_data [OF data])
  then have "credits_to_add rt data = Inr v"
    using assms(8) by (simp add: credits_to_add_def)
  moreover have "at_path data [''customer'', ''email''] = Some account"
    using assms(9) by (simp add: at_path_data [OF data])
  ultimately have "credit_branch rt reference data
      = Inr [AddCredits account v, WebhookLog (LogPayment account v reference), Flash Credited]"
    by (rule credit_branch_credits)
  with body show ?thesis
    by (simp add: success_effects_found [OF assms(1,2)])
qed

theorem first_credit_field_is_credited_witness:
  "reports_success (Json paid_with_two_fields) \<and>
   credited (effects (success sample_runtime (Some ''LUNES-BUYE-2-0123456789'') sample_session
                        (Json paid_with_two_fields)))
     = [(JStr ''buyer@example.com'', 1200)]"
proof -
  have 1: "find_reference (Some ''LUNES-BUYE-2-0123456789'') sample_session
             = Some ''LUNES-BUYE-2-0123456789''"
    by (simp add: find_reference_def)
  have 2: "''LUNES-BUYE-2-0123456789'' \<noteq> []" by simp
  have 3: "reports_success (Json paid_with_two_fields)"
    by (simp add: reports_success_def status_flag_true_def paid_with_two_fields_def
          verify_answer_def)
  have 4: "at_path paid_with_two_fields [''data'', ''metadata'', ''custom_fields'']
             = Some (JList ([JObj [(''display_name'', JStr ''Plan''),
                                   (''variable_name'', JStr ''plan''),
                                   (''value'', JStr ''small'')]]
                            @ credit_field (JInt 1200) # []))"
    by (simp add: paid_with_two_fields_def verify_answer_def)
  have 5: "\<forall>g \<in> set [JObj [(''display_name'', JStr ''Plan''), (''variable_name'', JStr ''plan''),
                             (''value'', JStr ''small'')]]. other_field g"
    by (simp add: other_field_def names_credits_def)
  have 6: "names_credits (credit_field (JInt 1200))"
    by (simp add: names_credits_def credit_field_def)
  have 7: "at_path (credit_field (JInt 1200)) [''value''] = Some (JInt 1200)"
    by (simp add: credit_field_def)
  have 8: "(1200::int) \<noteq> 0" by simp
  have 9: "at_path paid_with_two_fields [''data'', ''customer'', ''email'']
             = Some (JStr ''buyer@example.com'')"
    by (simp add: paid_with_two_fields_def verify_answer_def sample_customer_def)
  show ?thesis
    using 3 first_credit_field_is_credited [OF 1 2 3 4 5 6 7 8 9, of sample_runtime] by simp
qed

lemma int_truediv_100_of_500: "int_truediv_100 500 = Inr (Finite 5)"
  by (simp add: int_truediv_100_def fl_round_5)

text \<open>
  C2 fails as stated: the list of this answer contains a field named \<^verbatim>\<open>credits_to_add\<close>
  with the nonzero integer 1200, but the first field of that name holds 0, so the loop
  stops there and the 500 credited are derived from the paid amount.
\<close>

theorem later_credit_field_is_ignored:
  "reports_success (Json zero_then_nonzero) \<and>
   at_path zero_then_nonzero [''data'', ''metadata'', ''custom_fields'']
     = Some (JList [credit_field (JInt 0), credit_field (JInt 1200)]) \<and>
   names_credits (credit_field (JInt 1200)) \<and>
   at_path (credit_field (JInt 1200)) [''value''] = Some (JInt 1200) \<and>
   at_path zero_then_nonzero [''data'', ''amount''] = Some (JInt 500) \<and>
   credited (effects (success sample_runtime None sample_session (Json zero_then_nonzero)))
     = [(JStr ''buyer@example.com'', 500)]"
  by (simp add: reports_success_def status_flag_true_def names_credits_def zero_then_nonzero_def
        verification_defs int_truediv_100_of_500 fl_round_500)

subsection \<open>The fallback\<close>

lemma credits_without_metadata:
  assumes "at_path data [''metadata''] = None" "at_path data [''customer''] = Some customer"
  shows "credits_from_metadata rt data = Inr 0"
proof -
  from assms(2) obtain kvs where "data = JObj kvs" by (cases data) simp_all
  with assms(1) show ?thesis
    by (simp add: credits_from_metadata_def split: option.splits)
qed

lemma fallback_is_credited:
  assumes "find_reference arg session = Some reference" "reference \<noteq> []"
    and "reports_success (Json r)"
    and "at_path r [''data''] = Some data" "credits_from_metadata rt data = Inr 0"
    and "fallback_credits data = Inr n"
    and "at_path r [''data'', ''customer'', ''email''] = Some account"
  shows "credited (effects (success rt arg session (Json r))) = [(account, n)]"
proof -
  from assms(3) obtain data' where data': "at_path r [''data''] = Some data'"
    and body: "success_try rt reference (Json r) = credit_branch rt reference data'"
    by (rule success_try_on_success)
  from data' assms(4) have same: "data' = data" by simp
  have "credits_to_add rt data = Inr n"
    using assms(5,6) by (simp add: credits_to_add_def)
  moreover have "at_path data [''customer'', ''email''] = Some account"
    using assms(7) by (simp add: at_path_data [OF assms(4)])
  ultimately have "credit_branch rt reference data
      = Inr [AddCredits account n, WebhookLog (LogPayment account n reference), Flash Credited]"
    by (rule credit_branch_credits)
  with body same show ?thesis
    by (simp add: success_effects_found [OF assms(1,2)])
qed

lemma int_truediv_100_of_29:
  "int_truediv_100 29 = Inr (Finite (5224175567749775 / 18014398509481984))"
  by (simp add: int_truediv_100_def fl_round_29_100)

lemma fallback_credits_of_29:
  assumes "map_of kvs ''amount'' = Some (JInt 29)"
  shows "fallback_credits (JObj kvs) = Inr 28"
proof -
  have "int_of_float (Finite (8162774324609023 / 281474976710656)) = Inr 28"
    by (simp add: floor_eq_iff)
  with assms show ?thesis
    by (simp add: fallback_credits_def int_truediv_100_of_29 float_mul_100_of_29_100
          del: float_mul_100.simps int_of_float.simps)
qed

lemma int_truediv_100_of_6407:
  "int_truediv_100 6407 = Inr (Finite (1127131359865733 / 17592186044416))"
  by (simp add: int_truediv_100_def fl_round_6407_100)

lemma fallback_credits_of_6407:
  assumes "map_of kvs ''amount'' = Some (JInt 6407)"
  shows "fallback_credits (JObj kvs) = Inr 6406"
proof -
  have "int_of_float (Finite (7044570999160831 / 1099511627776)) = Inr 6406"
    by (simp add: floor_eq_iff)
  with assms show ?thesis
    by (simp add: fallback_credits_def int_truediv_100_of_6407 float_mul_100_of_6407_100
          del: float_mul_100.simps int_of_float.simps)
qed

lemma paid_without_metadata_credits:
  assumes "fallback_credits
             (JObj [(''status'', JStr ''success''), (''amount'', JInt amount),
                    (''customer'', sample_customer)]) = Inr n"
  shows "credited (effects (success rt None sample_session (Json (paid_without_metadata amount))))
           = [(JStr ''buyer@example.com'', n)]"
proof -
  let ?data = "JObj [(''status'', JStr ''success''), (''amount'', JInt amount),
                     (''customer'', sample_customer)]"
  have 1: "find_reference None sample_session = Some ''LUNES-VISI-1-0123456789''"
    by (simp add: find_reference_def sample_session_def)
  have 2: "''LUNES-VISI-1-0123456789'' \<noteq> []" by simp
  have 3: "reports_success (Json (paid_without_metadata amount))"
    by (simp add: reports_success_def status_flag_true_def paid_without_metadata_def
          verify_answer_def)
  have 4: "at_path (paid_without_metadata amount) [''data''] = Some ?data"
    by (simp add: paid_without_metadata_def verify_answer_def)
  have 5: "credits_from_metadata rt ?data = Inr 0"
    by (rule credits_without_metadata [where customer = sample_customer]) simp_all
  have 7: "at_path (paid_without_metadata amount) [''data'', ''customer'', ''email'']
             = Some (JStr ''buyer@example.com'')"
    by (simp add: paid_without_metadata_def verify_answer_def sample_customer_def)
  from fallback_is_credited [OF 1 2 3 4 5 assms 7] show ?thesis .
qed

text \<open>
  C3. The fallback is computed in binary64: \<^verbatim>\<open>amount / 100\<close> is rounded, the product with
  100 is rounded again, and \<^verbatim>\<open>int\<close> truncates. For a verified payment of 29 subunits with
  no metadata, 29 / 100 is the float just below 0.29, its product with 100 rounds to the
  float just below 29, and 28 credits are added; for 6407 subunits, 6406 credits are
  added. The formula \<open>floor (paid_subunit / 100 \<times> 100)\<close> gives 29 and 6407.
\<close>

theorem fallback_loses_a_credit:
  "reports_success (Json (paid_without_metadata 29)) \<and>
   at_path (paid_without_metadata 29) [''data'', ''metadata''] = None \<and>
   at_path (paid_without_metadata 29) [''data'', ''amount''] = Some (JInt 29) \<and>
   credited (effects (success sample_runtime None sample_session
                        (Json (paid_without_metadata 29))))
     = [(JStr ''buyer@example.com'', 28)] \<and>
   fallback_formula 29 = 29 \<and>
   credited (effects (success sample_runtime None sample_session
                        (Json (paid_without_metadata 6407))))
     = [(JStr ''buyer@example.com'', 6406)] \<and>
   fallback_formula 6407 = 6407"
proof -
  have 1: "reports_success (Json (paid_without_metadata 29))"
    by (simp add: reports_success_def status_flag_true_def paid_without_metadata_def
          verify_answer_def)
  have 2: "at_path (paid_without_metadata 29) [''data'', ''metadata''] = None"
    by (simp add: paid_without_metadata_def verify_answer_def)
  have 3: "at_path (paid_without_metadata 29) [''data'', ''amount''] = Some (JInt 29)"
    by (simp add: paid_without_metadata_def verify_answer_def)
  have 4: "credited (effects (success sample_runtime None sample_session
                                (Json (paid_without_metadata 29))))
             = [(JStr ''buyer@example.com'', 28)]"
    by (rule paid_without_metadata_credits, rule fallback_credits_of_29) simp
  have 5: "credited (effects (success sample_runtime None sample_session
                                (Json (paid_without_metadata 6407))))
             = [(JStr ''buyer@example.com'', 6406)]"
    by (rule paid_without_metadata_credits, rule fallback_credits_of_6407) simp
  have 6: "fallback_formula 29 = 29" "fallback_formula 6407 = 6407"
    by (simp_all add: fallback_formula_def)
  from 1 2 3 4 5 6 show ?thesis by simp
qed

subsection \<open>Processing errors\<close>

lemma processing_error_not_request:
  "processing_error e \<Longrightarrow> \<not> is_request_exception rt e"
  by (auto simp: processing_error_def is_request_exception_def)

lemma subscript_raises: "subscript j k = Inl e \<Longrightarrow> processing_error e"
  by (cases j) (auto simp: processing_error_def split: option.splits)

lemma dict_get_raises: "dict_get j k d = Inl e \<Longrightarrow> processing_error e"
  by (cases j) (auto simp: processing_error_def)

lemma py_iter_raises: "py_iter j = Inl e \<Longrightarrow> processing_error e"
  by (cases j) (auto simp: processing_error_def)

lemma int_of_float_raises: "int_of_float f = Inl e \<Longrightarrow> processing_error e"
  by (cases f) (auto simp: processing_error_def)

lemma int_truediv_100_raises: "int_truediv_100 n = Inl e \<Longrightarrow> processing_error e"
  by (auto simp: int_truediv_100_def processing_error_def split: pyfloat.splits)

lemma truediv_100_raises: "truediv_100 j = Inl e \<Longrightarrow> processing_error e"
  by (cases j) (auto simp: processing_error_def dest: int_truediv_100_raises)

lemma py_int_raises: "py_int rt j = Inl e \<Longrightarrow> processing_error e"
  by (cases j) (auto simp: processing_error_def split: option.splits dest: int_of_float_raises)

lemma scan_custom_fields_raises:
  "scan_custom_fields rt fs = Inl e \<Longrightarrow> processing_error e"
proof (induction fs)
  case Nil
  then show ?case by simp
next
  case (Cons field rest)
  then show ?case
    by (auto simp: bindE_eq_Inl split: sum.splits if_splits
             dest: dict_get_raises subscript_raises py_int_raises)
qed

lemma credits_from_metadata_raises:
  "credits_from_metadata rt data = Inl e \<Longrightarrow> processing_error e"
  unfolding credits_from_metadata_def
  by (auto simp: bindE_eq_Inl dest: dict_get_raises py_iter_raises scan_custom_fields_raises)

lemma fallback_credits_raises: "fallback_credits data = Inl e \<Longrightarrow> processing_error e"
  unfolding fallback_credits_def
  by (auto simp: bindE_eq_Inl dest: subscript_raises truediv_100_raises int_of_float_raises)

lemma credits_to_add_raises: "credits_to_add rt data = Inl e \<Longrightarrow> processing_error e"
  unfolding credits_to_add_def
  by (auto simp: bindE_eq_Inl split: if_splits
           dest: credits_from_metadata_raises fallback_credits_raises)

lemma credit_branch_raises: "credit_branch rt reference data = Inl e \<Longrightarrow> processing_error e"
  unfolding credit_branch_def
  by (auto simp: bindE_eq_Inl dest: credits_to_add_raises subscript_raises)

lemma failed_branch_raises: "failed_branch reference r = Inl e \<Longrightarrow> processing_error e"
proof -
  assume a: "failed_branch reference r = Inl e"
  show ?thesis
  proof (cases "subscript r ''data''")
    case (Inl e')
    with a show ?thesis by (auto simp: failed_branch_def dest: subscript_raises)
  next
    case (Inr data)
    with a show ?thesis
      by (cases data)
         (auto simp: failed_branch_def bindE_eq_Inl processing_error_def
               split: option.splits)
  qed
qed

lemma success_try_raises:
  "success_try rt reference (Json r) = Inl e \<Longrightarrow> processing_error e"
  unfolding success_try_def
  by (auto simp: bindE_eq_Inl split: if_splits
           dest: dict_get_raises subscript_raises credit_branch_raises failed_branch_raises)

lemma processing_error_effects:
  assumes "find_reference arg session = Some reference" "reference \<noteq> []"
    and "success_try rt reference (Json r) = Inl e"
  shows "effects (success rt arg session (Json r))
           = [SessionPop paystack_reference,
              HttpGet (verify_url reference) [(''Authorization'', bearer (secret_key rt))],
              WebhookLog (LogProcessingError e), Flash InternalError]"
  using processing_error_not_request [OF success_try_raises [OF assms(3)], of rt] assms(3)
  by (simp add: success_effects_found [OF assms(1,2)] success_except_def)

lemma at_path_None_subscript:
  "at_path j [k] = None \<Longrightarrow> \<exists>e. subscript j k = Inl e"
  by (cases j) (auto split: option.splits)

lemma missing_status_raises:
  assumes "status_flag_true (Json r)" "at_path r [''data'', ''status''] = None"
  shows "\<exists>e. success_try rt reference (Json r) = Inl e"
proof -
  from assms(1) obtain kvs f where r: "r = JObj kvs" and f: "map_of kvs ''status'' = Some f"
    and t: "truthy f"
    by (cases r) (auto simp: status_flag_true_def split: option.splits)
  show ?thesis
  proof (cases "map_of kvs ''data''")
    case None
    with r f t show ?thesis by (simp add: success_try_def)
  next
    case (Some data)
    with assms(2) r have "at_path data [''status''] = None" by simp
    then obtain e where "subscript data ''status'' = Inl e"
      by (blast dest: at_path_None_subscript)
    with r f t Some show ?thesis by (simp add: success_try_def)
  qed
qed

lemma missing_email_raises:
  assumes "at_path data [''customer'', ''email''] = None"
  shows "\<exists>e. credit_branch rt reference data = Inl e"
proof (cases "credits_to_add rt data")
  case (Inl e)
  then show ?thesis by (simp add: credit_branch_def)
next
  case (Inr c)
  show ?thesis
  proof (cases "subscript data ''customer''")
    case (Inl e)
    with Inr show ?thesis by (simp add: credit_branch_def)
  next
    case customer: (Inr customer)
    with assms have "at_path customer [''email''] = None" by (simp add: at_path_step)
    then obtain e where "subscript customer ''email'' = Inl e"
      by (blast dest: at_path_None_subscript)
    with Inr customer show ?thesis by (simp add: credit_branch_def)
  qed
qed

lemma unreadable_field_raises:
  assumes "unreadable_field rt field"
  shows "\<exists>e. scan_custom_fields rt (field # rest) = Inl e"
proof (cases field)
  case (JObj kvs)
  with assms have n: "map_of kvs ''variable_name'' = Some (JStr ''credits_to_add'')"
    by (auto simp: unreadable_field_def names_credits_def split: option.splits)
  show ?thesis
  proof (cases "map_of kvs ''value''")
    case None
    with JObj n show ?thesis by simp
  next
    case (Some v)
    with assms JObj obtain e where "py_int rt v = Inl e"
      by (auto simp: unreadable_field_def split: sum.splits)
    with JObj n Some show ?thesis by simp
  qed
qed simp_all

lemma leaves_zero_scan: "leaves_zero rt fs \<Longrightarrow> scan_custom_fields rt fs = Inr 0"
proof (induction fs)
  case Nil
  show ?case by simp
next
  case (Cons field rest)
  show ?case
  proof (cases "names_credits field")
    case True
    with Cons.prems obtain v where v: "at_path field [''value''] = Some v" "py_int rt v = Inr 0"
      by (auto split: option.splits)
    from True v(1) have "scan_custom_fields rt (field # rest) = py_int rt v"
      by (rule credits_field_read)
    with v(2) show ?thesis by simp
  next
    case False
    with Cons.prems have o: "other_field field" and z: "leaves_zero rt rest" by simp_all
    from o have "scan_custom_fields rt (field # rest) = scan_custom_fields rt rest"
      by (rule other_field_skipped)
    with Cons.IH [OF z] show ?thesis by simp
  qed
qed

lemma no_credits_in_metadata_zero:
  assumes "no_credits_in_metadata rt data"
  shows "credits_from_metadata rt data = Inr 0"
proof (cases data)
  case data: (JObj kvs)
  show ?thesis
  proof (cases "map_of kvs ''metadata''")
    case None
    with data show ?thesis by (simp add: credits_from_metadata_def)
  next
    case (Some metadata)
    show ?thesis
    proof (cases metadata)
      case metadata: (JObj m)
      show ?thesis
      proof (cases "map_of m ''custom_fields''")
        case None
        with data Some metadata show ?thesis by (simp add: credits_from_metadata_def)
      next
        case cf: (Some custom_fields)
        show ?thesis
        proof (cases "py_iter custom_fields")
          case (Inr fs)
          with assms data Some metadata cf have "leaves_zero rt fs"
            by (simp add: no_credits_in_metadata_def)
          then have "scan_custom_fields rt fs = Inr 0" by (rule leaves_zero_scan)
          with data Some metadata cf Inr show ?thesis
            by (simp add: credits_from_metadata_def)
        qed (use assms data Some metadata cf in \<open>simp_all add: no_credits_in_metadata_def\<close>)
      qed
    qed (use assms data Some in \<open>simp_all add: no_credits_in_metadata_def\<close>)
  qed
qed (use assms in \<open>simp_all add: no_credits_in_metadata_def\<close>)

lemma unreadable_amount_raises:
  assumes "unreadable_amount data"
  shows "\<exists>e. fallback_credits data = Inl e"
proof (cases "at_path data [''amount'']")
  case None
  then obtain e where "subscript data ''amount'' = Inl e"
    by (blast dest: at_path_None_subscript)
  then show ?thesis by (simp add: fallback_credits_def)
next
  case (Some amount)
  then have a: "subscript data ''amount'' = Inr amount" by (simp add: subscript_at_path)
  show ?thesis
  proof (cases "truediv_100 amount")
    case (Inl e)
    with a show ?thesis by (simp add: fallback_credits_def)
  next
    case (Inr major)
    with assms Some obtain e where "int_of_float (float_mul_100 major) = Inl e"
      by (auto simp: unreadable_amount_def split: sum.splits)
    with a Inr show ?thesis by (simp add: fallback_credits_def)
  qed
qed

lemma unreadable_metadata_raises:
  assumes "unreadable_metadata data"
  shows "\<exists>e. credits_from_metadata rt data = Inl e"
proof -
  from assms obtain metadata where md: "at_path data [''metadata''] = Some metadata"
    by (auto simp: unreadable_metadata_def split: option.splits)
  then obtain kvs where data: "data = JObj kvs" and m: "map_of kvs ''metadata'' = Some metadata"
    by (cases data) (auto split: option.splits)
  show ?thesis
  proof (cases metadata)
    case (JObj mkvs)
    with assms md obtain custom_fields e where
      "map_of mkvs ''custom_fields'' = Some custom_fields" "py_iter custom_fields = Inl e"
      by (auto simp: unreadable_metadata_def split: option.splits sum.splits)
    with data m JObj show ?thesis by (simp add: credits_from_metadata_def)
  qed (use data m in \<open>simp_all add: credits_from_metadata_def\<close>)
qed

lemma credit_branch_raises_with_credits:
  "credits_to_add rt data = Inl e \<Longrightarrow> credit_branch rt reference data = Inl e"
  by (simp add: credit_branch_def)

text \<open>
  C10. In the branch of a successful transaction, a missing field or an unparseable
  value raises an exception that the broad handler catches: nothing is credited, the
  error is logged, the generic message is flashed and the handler redirects. The cases
  are:
  \<^item> a true status flag with no \<^verbatim>\<open>data\<close> object, or no status in it;
  \<^item> a reported success whose answer has no \<^verbatim>\<open>data.customer.email\<close>;
  \<^item> a reported success where the loop over \<^verbatim>\<open>custom_fields\<close> reaches, after objects with
    other names, a field that is not an object, or the field named \<^verbatim>\<open>credits_to_add\<close> and
    this one has no \<^verbatim>\<open>value\<close> or a value that \<^verbatim>\<open>int\<close> rejects;
  \<^item> a reported success with no credit amount in the metadata, where the fallback finds no
    \<^verbatim>\<open>amount\<close>, or one it cannot divide, or one whose rescaled value \<^verbatim>\<open>int\<close> rejects;
  \<^item> a reported success whose metadata are not an object, or whose \<^verbatim>\<open>custom_fields\<close>
    cannot be iterated.
\<close>

theorem processing_error_credits_nothing:
  assumes "find_reference arg session = Some reference" "reference \<noteq> []"
    and "(status_flag_true (Json r) \<and> at_path r [''data'', ''status''] = None) \<or>
         (reports_success (Json r) \<and> at_path r [''data'', ''customer'', ''email''] = None) \<or>
         (reports_success (Json r) \<and>
          at_path r [''data'', ''metadata'', ''custom_fields''] = Some custom_fields \<and>
          py_iter custom_fields = Inr (skipped @ field # rest) \<and>
          (\<forall>g \<in> set skipped. other_field g) \<and> unreadable_field rt field) \<or>
         (reports_success (Json r) \<and> at_path r [''data''] = Some data \<and>
          no_credits_in_metadata rt data \<and> unreadable_amount data) \<or>
         (reports_success (Json r) \<and> at_path r [''data''] = Some data \<and>
          unreadable_metadata data)"
  shows "(\<exists>e. effects (success rt arg session (Json r))
                = [SessionPop paystack_reference,
                   HttpGet (verify_url reference) [(''Authorization'', bearer (secret_key rt))],
                   WebhookLog (LogProcessingError e), Flash InternalError]) \<and>
         credited (effects (success rt arg session (Json r))) = [] \<and>
         response (success rt arg session (Json r)) = Redirect user_index"
proof -
  have branch: "\<exists>e. success_try rt reference (Json r) = Inl e"
    if ok: "reports_success (Json r)" and d: "at_path r [''data''] = Some d"
      and raises: "\<exists>e. credit_branch rt reference d = Inl e" for d
  proof -
    from ok obtain data' where data': "at_path r [''data''] = Some data'"
      and body: "success_try rt reference (Json r) = credit_branch rt reference data'"
      by (rule success_try_on_success)
    from data' d have "data' = d" by simp
    with body raises show ?thesis by simp
  qed
  have raised: "\<exists>e. success_try rt reference (Json r) = Inl e"
    using assms(3)
  proof (elim disjE conjE)
    assume "status_flag_true (Json r)" "at_path r [''data'', ''status''] = None"
    then show ?thesis by (rule missing_status_raises)
  next
    assume ok: "reports_success (Json r)"
      and none: "at_path r [''data'', ''customer'', ''email''] = None"
    from ok obtain d where d: "at_path r [''data''] = Some d"
      by (rule success_try_on_success)
    from none have "at_path d [''customer'', ''email''] = None"
      by (simp add: at_path_data [OF d])
    then have "\<exists>e. credit_branch rt reference d = Inl e" by (rule missing_email_raises)
    with ok d show ?thesis by (rule branch)
  next
    assume ok: "reports_success (Json r)"
      and fields: "at_path r [''data'', ''metadata'', ''custom_fields''] = Some custom_fields"
      and iter: "py_iter custom_fields = Inr (skipped @ field # rest)"
      and others: "\<forall>g \<in> set skipped. other_field g"
      and bad: "unreadable_field rt field"
    from ok obtain d where d: "at_path r [''data''] = Some d"
      by (rule success_try_on_success)
    from fields have "at_path d [''metadata'', ''custom_fields''] = Some custom_fields"
      by (simp add: at_path_data [OF d])
    then obtain kvs metadata where dk: "d = JObj kvs"
      and m: "map_of kvs ''metadata'' = Some metadata"
      and c: "at_path metadata [''custom_fields''] = Some custom_fields"
      by (rule at_path_Cons_Some)
    from c obtain mkvs where mo: "metadata = JObj mkvs"
      and cf: "map_of mkvs ''custom_fields'' = Some custom_fields"
      by (cases metadata) (auto split: option.splits)
    from bad obtain e where "scan_custom_fields rt (field # rest) = Inl e"
      by (blast dest: unreadable_field_raises)
    with others have "scan_custom_fields rt (skipped @ field # rest) = Inl e"
      by (simp add: other_fields_skipped del: scan_custom_fields.simps)
    with dk m mo cf iter have "credits_from_metadata rt d = Inl e"
      by (simp add: credits_from_metadata_def)
    then have "credit_branch rt reference d = Inl e"
      by (simp add: credit_branch_def credits_to_add_def)
    then have "\<exists>e. credit_branch rt reference d = Inl e" ..
    with ok d show ?thesis by (rule branch)
  next
    assume ok: "reports_success (Json r)" and d: "at_path r [''data''] = Some data"
      and zero: "no_credits_in_metadata rt data" and bad: "unreadable_amount data"
    from zero have "credits_from_metadata rt data = Inr 0" by (rule no_credits_in_metadata_zero)
    moreover from bad obtain e where "fallback_credits data = Inl e"
      by (blast dest: unreadable_amount_raises)
    ultimately have "credits_to_add rt data = Inl e" by (simp add: credits_to_add_def)
    then have "credit_branch rt reference data = Inl e"
      by (rule credit_branch_raises_with_credits)
    then have "\<exists>e. credit_branch rt reference data = Inl e" ..
    with ok d show ?thesis by (rule branch)
  next
    assume ok: "reports_success (Json r)" and d: "at_path r [''data''] = Some data"
      and bad: "unreadable_metadata data"
    from bad obtain e where "credits_from_metadata rt data = Inl e"
      by (blast dest: unreadable_metadata_raises)
    then have "credit_branch rt reference data = Inl e"
      by (simp add: credit_branch_def credits_to_add_def)
    then have "\<exists>e. credit_branch rt reference data = Inl e" ..
    with ok d show ?thesis by (rule branch)
  qed
  then obtain e where e: "success_try rt reference (Json r) = Inl e" ..
  have eff: "effects (success rt arg session (Json r))
               = [SessionPop paystack_reference,
                  HttpGet (verify_url reference) [(''Authorization'', bearer (secret_key rt))],
                  WebhookLog (LogProcessingError e), Flash InternalError]"
    using assms(1,2) e by (rule processing_error_effects)
  then have "credited (effects (success rt arg session (Json r))) = []" by simp
  with eff success_returns_redirect [of rt arg session "Json r"] show ?thesis by blast
qed

theorem processing_error_credits_nothing_witness:
  "status_flag_true (Json true_flag_without_data) \<and>
   at_path true_flag_without_data [''data'', ''status''] = None \<and>
   credited (effects (success sample_runtime None sample_session (Json true_flag_without_data)))
     = [] \<and>
   reports_success (Json paid_without_customer) \<and>
   at_path paid_without_customer [''data'', ''customer'', ''email''] = None \<and>
   credited (effects (success sample_runtime None sample_session (Json paid_without_customer)))
     = [] \<and>
   reports_success (Json paid_with_text_credits) \<and>
   py_int sample_runtime (JStr ''many'') = Inl ValueError \<and>
   credited (effects (success sample_runtime None sample_session (Json paid_with_text_credits)))
     = [] \<and>
   response (success sample_runtime None sample_session (Json paid_with_text_credits))
     = Redirect user_index \<and>
   reports_success (Json paid_with_valueless_field) \<and>
   credited (effects (success sample_runtime None sample_session
                        (Json paid_with_valueless_field))) = [] \<and>
   reports_success (Json paid_without_amount) \<and>
   at_path paid_without_amount [''data'', ''amount''] = None \<and>
   credited (effects (success sample_runtime None sample_session (Json paid_without_amount)))
     = [] \<and>
   reports_success (Json paid_with_null_metadata) \<and>
   at_path paid_with_null_metadata [''data'', ''metadata''] = Some JNull \<and>
   credited (effects (success sample_runtime None sample_session (Json paid_with_null_metadata)))
     = []"
proof -
  let ?valueless = "JObj [(''display_name'', JStr ''Credits''),
                          (''variable_name'', JStr ''credits_to_add'')]"
  let ?no_amount = "JObj [(''status'', JStr ''success''), (''customer'', sample_customer)]"
  let ?null_metadata = "JObj [(''status'', JStr ''success''), (''amount'', JInt 500),
                              (''metadata'', JNull), (''customer'', sample_customer)]"
  have 1: "find_reference None sample_session = Some ''LUNES-VISI-1-0123456789''"
    by (simp add: find_reference_def sample_session_def)
  have 2: "''LUNES-VISI-1-0123456789'' \<noteq> []" by simp
  have a1: "status_flag_true (Json true_flag_without_data)"
    by (simp add: status_flag_true_def true_flag_without_data_def)
  have a2: "at_path true_flag_without_data [''data'', ''status''] = None"
    by (simp add: true_flag_without_data_def)
  have b1: "reports_success (Json paid_without_customer)"
    by (simp add: reports_success_def status_flag_true_def paid_without_customer_def
          verify_answer_def)
  have b2: "at_path paid_without_customer [''data'', ''customer'', ''email''] = None"
    by (simp add: paid_without_customer_def verify_answer_def)
  have c1: "reports_success (Json paid_with_text_credits)"
    by (simp add: reports_success_def status_flag_true_def paid_with_text_credits_def
          verify_answer_def)
  have c2: "at_path paid_with_text_credits [''data'', ''metadata'', ''custom_fields'']
              = Some (JList [plan_field, credit_field (JStr ''many'')])"
    by (simp add: paid_with_text_credits_def verify_answer_def)
  have c2': "py_iter (JList [plan_field, credit_field (JStr ''many'')])
               = Inr ([plan_field] @ credit_field (JStr ''many'') # [])"
    by simp
  have c2'': "\<forall>g \<in> set [plan_field]. other_field g"
    by (simp add: other_field_def names_credits_def plan_field_def)
  have c3: "py_int sample_runtime (JStr ''many'') = Inl ValueError"
    by (simp add: sample_runtime_def ascii_decimal_def)
  have c4: "unreadable_field sample_runtime (credit_field (JStr ''many''))"
    using c3 by (simp add: unreadable_field_def names_credits_def credit_field_def)
  have d1: "reports_success (Json paid_with_valueless_field)"
    by (simp add: reports_success_def status_flag_true_def paid_with_valueless_field_def
          verify_answer_def)
  have d2: "at_path paid_with_valueless_field [''data'', ''metadata'', ''custom_fields'']
              = Some (JList [?valueless])"
    by (simp add: paid_with_valueless_field_def verify_answer_def)
  have d2': "py_iter (JList [?valueless]) = Inr ([] @ ?valueless # [])"
    by simp
  have d3: "unreadable_field sample_runtime ?valueless"
    by (simp add: unreadable_field_def names_credits_def)
  have e1: "reports_success (Json paid_without_amount)"
    by (simp add: reports_success_def status_flag_true_def paid_without_amount_def
          verify_answer_def)
  have e2: "at_path paid_without_amount [''data''] = Some ?no_amount"
    by (simp add: paid_without_amount_def verify_answer_def)
  have e3: "no_credits_in_metadata sample_runtime ?no_amount"
    by (simp add: no_credits_in_metadata_def)
  have e4: "unreadable_amount ?no_amount" by (simp add: unreadable_amount_def)
  have e5: "at_path paid_without_amount [''data'', ''amount''] = None"
    by (simp add: paid_without_amount_def verify_answer_def)
  have f1: "reports_success (Json paid_with_null_metadata)"
    by (simp add: reports_success_def status_flag_true_def paid_with_null_metadata_def
          verify_answer_def)
  have f2: "at_path paid_with_null_metadata [''data''] = Some ?null_metadata"
    by (simp add: paid_with_null_metadata_def verify_answer_def)
  have f3: "unreadable_metadata ?null_metadata" by (simp add: unreadable_metadata_def)
  have f4: "at_path paid_with_null_metadata [''data'', ''metadata''] = Some JNull"
    by (simp add: paid_with_null_metadata_def verify_answer_def)
  have a: "credited (effects (success sample_runtime None sample_session
                                (Json true_flag_without_data))) = []"
    using processing_error_credits_nothing
            [where arg = None and session = sample_session and r = true_flag_without_data
               and rt = sample_runtime, OF 1 2]
          a1 a2
    by blast
  have b: "credited (effects (success sample_runtime None sample_session
                                (Json paid_without_customer))) = []"
    using processing_error_credits_nothing
            [where arg = None and session = sample_session and r = paid_without_customer
               and rt = sample_runtime, OF 1 2]
          b1 b2
    by blast
  have c: "credited (effects (success sample_runtime None sample_session
                                (Json paid_with_text_credits))) = [] \<and>
           response (success sample_runtime None sample_session (Json paid_with_text_credits))
             = Redirect user_index"
    using processing_error_credits_nothing
            [where arg = None and session = sample_session and r = paid_with_text_credits
               and custom_fields = "JList [plan_field, credit_field (JStr ''many'')]"
               and skipped = "[plan_field]" and field = "credit_field (JStr ''many'')"
               and rest = "[]" and rt = sample_runtime, OF 1 2]
          c1 c2 c2' c2'' c4
    by blast
  have d: "credited (effects (success sample_runtime None sample_session
                                (Json paid_with_valueless_field))) = []"
    using processing_error_credits_nothing
            [where arg = None and session = sample_session and r = paid_with_valueless_field
               and custom_fields = "JList [?valueless]"
               and skipped = "[]" and field = ?valueless and rest = "[]"
               and rt = sample_runtime, OF 1 2]
          d1 d2 d2' d3
    by simp
  have e: "credited (effects (success sample_runtime None sample_session
                                (Json paid_without_amount))) = []"
    using processing_error_credits_nothing
            [where arg = None and session = sample_session and r = paid_without_amount
               and data = ?no_amount and rt = sample_runtime, OF 1 2]
          e1 e2 e3 e4
    by simp
  have f: "credited (effects (success sample_runtime None sample_session
                                (Json paid_with_null_metadata))) = []"
    using processing_error_credits_nothing
            [where arg = None and session = sample_session and r = paid_with_null_metadata
               and data = ?null_metadata and rt = sample_runtime, OF 1 2]
          f1 f2 f3
    by simp
  from a1 a2 a b1 b2 b c1 c3 c d1 d e1 e5 e f1 f4 f show ?thesis by blast
qed

end
